theory Spec2Isabelle
  imports Complex_Main
begin

section \<open>JavaScript primitives used by the generators\<close>

text \<open>
  The four generators (ellipse, flange, firetube, jumper) are browser scripts. Their
  numbers are IEEE doubles; here a finite number is a \<^typ>\<open>real\<close> and arithmetic on finite
  numbers is exact: rounding to the nearest double is not modelled, and neither is an
  overflow or an underflow of a sum, product or quotient of finite numbers. What is
  modelled of the doubles is the overflow and the underflow of a numeric literal
  (\<open>Number\<close>, \<open>parseInt\<close>), the overflow of the product in \<open>fmt\<close>, and the division of a
  number by zero.

  Where every call site tests a number with \<open>Number.isFinite\<close> (or with a comparison that
  \<open>NaN\<close> fails) before using it, a number that is not finite is \<open>None\<close>. The firetube
  script compares and combines what it has parsed without such a test; there a number is
  a \<open>jsnum\<close>, which keeps the two infinities and \<open>NaN\<close> apart.

  Strings are byte strings; white space is the ASCII white space that \<open>trim\<close>, \<open>\s\<close> and
  \<open>Number\<close> skip (space, tab, line feed, vertical tab, form feed, carriage return).
\<close>

definition is_space :: "char \<Rightarrow> bool" where
  "is_space c \<longleftrightarrow> c \<in> set [CHR '' '', CHR 0x09, CHR 0x0A, CHR 0x0B, CHR 0x0C, CHR 0x0D]"

definition is_digit :: "char \<Rightarrow> bool" where
  "is_digit c \<longleftrightarrow> c \<in> set ''0123456789''"

text \<open>\<open>String.prototype.trim\<close>.\<close>

definition trim :: "string \<Rightarrow> string" where
  "trim s = rev (dropWhile is_space (rev (dropWhile is_space s)))"

fun index_of :: "'a \<Rightarrow> 'a list \<Rightarrow> nat" where
  "index_of x [] = 0"
| "index_of x (y # ys) = (if x = y then 0 else Suc (index_of x ys))"

definition radix_digit_val :: "char \<Rightarrow> nat" where
  "radix_digit_val c =
     (if c \<in> set ''0123456789abcdef'' then index_of c ''0123456789abcdef''
      else index_of c ''0123456789ABCDEF'')"

definition is_radix_digit :: "nat \<Rightarrow> char \<Rightarrow> bool" where
  "is_radix_digit b c \<longleftrightarrow> c \<in> set ''0123456789abcdefABCDEF'' \<and> radix_digit_val c < b"

definition radix_val :: "nat \<Rightarrow> string \<Rightarrow> nat" where
  "radix_val b ds = foldl (\<lambda>a c. b * a + radix_digit_val c) 0 ds"

definition digits_val :: "string \<Rightarrow> nat" where
  "digits_val ds = radix_val 10 ds"

text \<open>
  The double of a numeric literal, as far as its size goes: it is an infinity when the
  magnitude reaches the largest double plus half a unit in the last place, and 0 when
  the magnitude is at most half the smallest positive double.
\<close>

definition finite_or_NaN :: "real \<Rightarrow> real option" where
  "finite_or_NaN v =
     (if 2 ^ 1024 - 2 ^ 970 \<le> \<bar>v\<bar> then None
      else if \<bar>v\<bar> \<le> 1 / 2 ^ 1075 then Some 0
      else Some v)"

definition scale10 :: "real \<Rightarrow> int \<Rightarrow> real" where
  "scale10 m e = (if 0 \<le> e then m * 10 ^ nat e else m / 10 ^ nat (- e))"

text \<open>The \<open>ExponentPart\<close> of a decimal literal, which may be absent.\<close>

definition exponent_part :: "string \<Rightarrow> int option" where
  "exponent_part s =
     (case s of
        [] \<Rightarrow> Some 0
      | c # t \<Rightarrow>
          if c = CHR ''e'' \<or> c = CHR ''E'' then
            (case t of
               [] \<Rightarrow> None
             | g # ds \<Rightarrow>
                 if g = CHR ''+'' then
                   (if ds \<noteq> [] \<and> list_all is_digit ds then Some (int (digits_val ds)) else None)
                 else if g = CHR ''-'' then
                   (if ds \<noteq> [] \<and> list_all is_digit ds then Some (- int (digits_val ds)) else None)
                 else if list_all is_digit t then Some (int (digits_val t)) else None)
          else None)"

text \<open>
  \<open>StrUnsignedDecimalLiteral\<close> of the \<open>StringToNumber\<close> grammar: \<open>Infinity\<close>, or digits
  with an optional fraction and exponent, at least one digit before or after the point.
\<close>

definition unsigned_decimal :: "string \<Rightarrow> real option" where
  "unsigned_decimal s =
     (if s = ''Infinity'' then None
      else
        let ip = takeWhile is_digit s;
            r1 = dropWhile is_digit s;
            has_dot = (r1 \<noteq> [] \<and> hd r1 = CHR ''.'');
            fp = (if has_dot then takeWhile is_digit (tl r1) else []);
            r2 = (if has_dot then dropWhile is_digit (tl r1) else r1)
        in if ip = [] \<and> fp = [] then None
           else map_option
                  (scale10 (real (digits_val ip) + real (digits_val fp) / 10 ^ length fp))
                  (exponent_part r2))"

text \<open>
  \<open>Number(s)\<close> on a string: white space around the literal is skipped, the empty literal is
  0, a hexadecimal, octal or binary integer literal takes no sign, a decimal literal takes
  an optional sign.
\<close>

definition radix_literal :: "nat \<Rightarrow> string \<Rightarrow> real option" where
  "radix_literal b ds =
     (if ds \<noteq> [] \<and> list_all (is_radix_digit b) ds then finite_or_NaN (real (radix_val b ds))
      else None)"

definition Number :: "string \<Rightarrow> real option" where
  "Number str =
     (let t = trim str in
      if t = [] then Some 0
      else if take 2 t = ''0x'' \<or> take 2 t = ''0X'' then radix_literal 16 (drop 2 t)
      else if take 2 t = ''0o'' \<or> take 2 t = ''0O'' then radix_literal 8 (drop 2 t)
      else if take 2 t = ''0b'' \<or> take 2 t = ''0B'' then radix_literal 2 (drop 2 t)
      else if hd t = CHR ''+'' then Option.bind (unsigned_decimal (tl t)) finite_or_NaN
      else if hd t = CHR ''-'' then
        Option.bind (unsigned_decimal (tl t)) (\<lambda>v. finite_or_NaN (- v))
      else Option.bind (unsigned_decimal t) finite_or_NaN)"

text \<open>
  A number of the script that need not be finite, with the comparisons and the arithmetic
  of the doubles on the values that are not finite. Zero has no sign here.
\<close>

datatype jsnum = Fin real | PInf | NInf | NaN

fun js_lt :: "jsnum \<Rightarrow> jsnum \<Rightarrow> bool" where
  "js_lt (Fin a) (Fin b) \<longleftrightarrow> a < b"
| "js_lt (Fin a) PInf \<longleftrightarrow> True"
| "js_lt NInf (Fin b) \<longleftrightarrow> True"
| "js_lt NInf PInf \<longleftrightarrow> True"
| "js_lt a b \<longleftrightarrow> False"

fun js_le :: "jsnum \<Rightarrow> jsnum \<Rightarrow> bool" where
  "js_le (Fin a) (Fin b) \<longleftrightarrow> a \<le> b"
| "js_le (Fin a) PInf \<longleftrightarrow> True"
| "js_le NInf (Fin b) \<longleftrightarrow> True"
| "js_le NInf PInf \<longleftrightarrow> True"
| "js_le PInf PInf \<longleftrightarrow> True"
| "js_le NInf NInf \<longleftrightarrow> True"
| "js_le a b \<longleftrightarrow> False"

abbreviation js_gt :: "jsnum \<Rightarrow> jsnum \<Rightarrow> bool" where
  "js_gt a b \<equiv> js_lt b a"

abbreviation js_ge :: "jsnum \<Rightarrow> jsnum \<Rightarrow> bool" where
  "js_ge a b \<equiv> js_le b a"

fun js_neg :: "jsnum \<Rightarrow> jsnum" where
  "js_neg (Fin a) = Fin (- a)"
| "js_neg PInf = NInf"
| "js_neg NInf = PInf"
| "js_neg NaN = NaN"

fun js_add :: "jsnum \<Rightarrow> jsnum \<Rightarrow> jsnum" where
  "js_add (Fin a) (Fin b) = Fin (a + b)"
| "js_add NaN b = NaN"
| "js_add a NaN = NaN"
| "js_add PInf NInf = NaN"
| "js_add NInf PInf = NaN"
| "js_add PInf b = PInf"
| "js_add a PInf = PInf"
| "js_add NInf b = NInf"
| "js_add a NInf = NInf"

definition js_sub :: "jsnum \<Rightarrow> jsnum \<Rightarrow> jsnum" where
  "js_sub a b = js_add a (js_neg b)"

fun js_mul :: "jsnum \<Rightarrow> jsnum \<Rightarrow> jsnum" where
  "js_mul (Fin a) (Fin b) = Fin (a * b)"
| "js_mul NaN b = NaN"
| "js_mul a NaN = NaN"
| "js_mul (Fin a) b = (if a = 0 then NaN else if 0 < a then b else js_neg b)"
| "js_mul a (Fin b) = (if b = 0 then NaN else if 0 < b then a else js_neg a)"
| "js_mul a b = (if a = b then PInf else NInf)"

fun js_div :: "jsnum \<Rightarrow> jsnum \<Rightarrow> jsnum" where
  "js_div (Fin a) (Fin b) =
     (if b = 0 then (if a = 0 then NaN else if 0 < a then PInf else NInf) else Fin (a / b))"
| "js_div NaN b = NaN"
| "js_div a NaN = NaN"
| "js_div (Fin a) b = Fin 0"
| "js_div a (Fin b) = (if 0 \<le> b then a else js_neg a)"
| "js_div a b = NaN"

text \<open>The double of a literal: an infinity when the magnitude overflows.\<close>

definition to_num :: "real \<Rightarrow> jsnum" where
  "to_num v =
     (if 2 ^ 1024 - 2 ^ 970 \<le> v then PInf
      else if v \<le> - (2 ^ 1024 - 2 ^ 970) then NInf
      else Fin v)"

text \<open>
  \<open>parseInt(s, 10)\<close>: leading white space and a sign are skipped, then the longest prefix
  of decimal digits is read; with no digit the result is \<open>NaN\<close>, and a run of digits
  beyond the range of the doubles gives an infinity.
\<close>

definition parseInt :: "string \<Rightarrow> jsnum" where
  "parseInt str =
     (let t = dropWhile is_space str;
          signed = (t \<noteq> [] \<and> (hd t = CHR ''+'' \<or> hd t = CHR ''-''));
          ds = takeWhile is_digit (if signed then tl t else t)
      in if ds = [] then NaN
         else if signed \<and> hd t = CHR ''-'' then to_num (- real (digits_val ds))
         else to_num (real (digits_val ds)))"

text \<open>\<open>Math.round\<close> rounds half up; \<open>a % b\<close> is the remainder of truncated division.\<close>

definition js_round :: "real \<Rightarrow> real" where
  "js_round x = of_int \<lfloor>x + 1 / 2\<rfloor>"

fun Math_round :: "jsnum \<Rightarrow> jsnum" where
  "Math_round (Fin x) = Fin (js_round x)"
| "Math_round a = a"

definition js_trunc :: "real \<Rightarrow> int" where
  "js_trunc x = (if 0 \<le> x then \<lfloor>x\<rfloor> else \<lceil>x\<rceil>)"

definition js_rem :: "real \<Rightarrow> real \<Rightarrow> real" where
  "js_rem a b = a - b * of_int (js_trunc (a / b))"

definition hypot :: "real \<Rightarrow> real \<Rightarrow> real" where
  "hypot x y = sqrt (x\<^sup>2 + y\<^sup>2)"

section \<open>The dimension parsers\<close>

subsection \<open>Ellipse, flange and jumper: \<open>parseInches\<close>\<close>

text \<open>
  The three files hold the same function. It returns \<open>NaN\<close> (here \<open>None\<close>) on failure.
  \<open>s.replace(/-/g, " ")\<close> is \<open>hyphens_to_spaces\<close>, \<open>replace(/\s+/g, " ")\<close> is
  \<open>collapse_spaces\<close>, \<open>split\<close> on a one-character separator is \<open>split_on\<close>.
\<close>

definition hyphens_to_spaces :: "string \<Rightarrow> string" where
  "hyphens_to_spaces s = map (\<lambda>c. if c = CHR ''-'' then CHR '' '' else c) s"

fun collapse_spaces :: "string \<Rightarrow> string" where
  "collapse_spaces [] = []"
| "collapse_spaces [c] = [if is_space c then CHR '' '' else c]"
| "collapse_spaces (c # d # cs) =
     (if is_space c then
        (if is_space d then collapse_spaces (d # cs) else CHR '' '' # collapse_spaces (d # cs))
      else c # collapse_spaces (d # cs))"

fun split_on :: "char \<Rightarrow> string \<Rightarrow> string list" where
  "split_on sep [] = [[]]"
| "split_on sep (c # cs) =
     (if c = sep then [] # split_on sep cs
      else (c # hd (split_on sep cs)) # tl (split_on sep cs))"

definition parseInches :: "string \<Rightarrow> real option" where
  "parseInches str =
     (let s0 = trim str in
      if s0 = [] then None
      else
        let s = collapse_spaces (hyphens_to_spaces s0);
            parts = split_on CHR '' '' s
        in if length parts = 2 \<and> CHR ''/'' \<in> set (parts ! 1) then
             (let nd = split_on CHR ''/'' (parts ! 1) in
              case (Number (parts ! 0), Number (nd ! 0), Number (nd ! 1)) of
                (Some whole, Some n, Some d) \<Rightarrow>
                  if d = 0 then None else Some (whole + n / d)
              | _ \<Rightarrow> None)
           else if length parts = 1 \<and> CHR ''/'' \<in> set s then
             (let nd = split_on CHR ''/'' s in
              case (Number (nd ! 0), Number (nd ! 1)) of
                (Some n, Some d) \<Rightarrow> if d = 0 then None else Some (n / d)
              | _ \<Rightarrow> None)
           else Number s)"

subsection \<open>Firetube: \<open>parseInches\<close> throws\<close>

datatype ft_error =
    EmptyValue
  | InvalidFraction string
  | InvalidNumber string
  | Required string
  | OdLongShort
  | IdLongShort
  | BcLongShort
  | IdNotSmallerThanOd
  | BcOutsideOd
  | HoleCountNotPositive
  | HoleDiaNotPositive
  | BoltHolesOverlap
  | LongLessThanShort real real

text \<open>
  The two regular expressions, \<open>/^(\d+)\s*\/\s*(\d+)$/\<close> and
  \<open>/^(\d+)\s+(\d+)\s*\/\s*(\d+)$/\<close>. Digits, white space and the slash are disjoint
  character classes, so the greedy match is the only one.
\<close>

definition match_frac :: "string \<Rightarrow> (string \<times> string) option" where
  "match_frac s =
     (let n = takeWhile is_digit s;
          r1 = dropWhile is_space (dropWhile is_digit s)
      in if n = [] \<or> r1 = [] \<or> hd r1 \<noteq> CHR ''/'' then None
         else
           let r2 = dropWhile is_space (tl r1);
               d = takeWhile is_digit r2
           in if d = [] \<or> dropWhile is_digit r2 \<noteq> [] then None else Some (n, d))"

definition match_mixed :: "string \<Rightarrow> (string \<times> string \<times> string) option" where
  "match_mixed s =
     (let w = takeWhile is_digit s;
          r1 = dropWhile is_digit s
      in if w = [] \<or> r1 = [] \<or> \<not> is_space (hd r1) then None
         else map_option (\<lambda>(n, d). (w, n, d)) (match_frac (dropWhile is_space r1)))"

text \<open>
  The groups of digits are read with \<open>parseInt\<close>, and the sum or quotient is returned
  without a test: a group beyond the range of the doubles makes the result an infinity
  or \<open>NaN\<close>. \<open>den === 0\<close> is false for an infinity.
\<close>

definition parseInches_firetube :: "string \<Rightarrow> ft_error + jsnum" where
  "parseInches_firetube str =
     (let raw = trim str in
      if raw = [] then Inl EmptyValue
      else
        case match_mixed raw of
          Some (w, n, d) \<Rightarrow>
            let whole = parseInt w;
                num = parseInt n;
                den = parseInt d
            in if den = Fin 0 then Inl (InvalidFraction raw)
               else Inr (js_add whole (js_div num den))
        | None \<Rightarrow>
            (case match_frac raw of
               Some (n, d) \<Rightarrow>
                 let num = parseInt n;
                     den = parseInt d
                 in if den = Fin 0 then Inl (InvalidFraction raw)
                    else Inr (js_div num den)
             | None \<Rightarrow>
                 (case Number raw of
                    None \<Rightarrow> Inl (InvalidNumber raw)
                  | Some v \<Rightarrow> Inr (Fin v))))"

section \<open>DXF text\<close>

text \<open>
  Every generator builds the DXF text as lines joined by a line feed. A line is either a
  fixed text or the decimal text \<open>String(x)\<close> of a number \<open>x\<close>, here \<open>Num x\<close>.
\<close>

datatype dxf_line = Lit string | Num real

type_synonym point = "real \<times> real"

subsection \<open>Ellipse, flange and jumper\<close>

definition dxfHeader :: "dxf_line list" where
  "dxfHeader =
     [Lit ''0'', Lit ''SECTION'', Lit ''2'', Lit ''HEADER'',
      Lit ''9'', Lit ''$ACADVER'', Lit ''1'', Lit ''AC1009'',
      Lit ''9'', Lit ''$INSUNITS'', Lit ''70'', Lit ''1'',
      Lit ''0'', Lit ''ENDSEC'',
      Lit ''0'', Lit ''SECTION'', Lit ''2'', Lit ''TABLES'',
      Lit ''0'', Lit ''TABLE'', Lit ''2'', Lit ''LAYER'', Lit ''70'', Lit ''2'',
      Lit ''0'', Lit ''LAYER'', Lit ''2'', Lit ''Perimeter'', Lit ''70'', Lit ''0'',
      Lit ''62'', Lit ''7'', Lit ''6'', Lit ''CONTINUOUS'',
      Lit ''0'', Lit ''LAYER'', Lit ''2'', Lit ''Holes'', Lit ''70'', Lit ''0'',
      Lit ''62'', Lit ''7'', Lit ''6'', Lit ''CONTINUOUS'',
      Lit ''0'', Lit ''ENDTAB'',
      Lit ''0'', Lit ''ENDSEC'',
      Lit ''0'', Lit ''SECTION'', Lit ''2'', Lit ''ENTITIES'']"

definition dxfFooter :: "dxf_line list" where
  "dxfFooter = [Lit ''0'', Lit ''ENDSEC'', Lit ''0'', Lit ''EOF'']"

definition dxfCircle :: "real \<Rightarrow> real \<Rightarrow> real \<Rightarrow> string \<Rightarrow> dxf_line list" where
  "dxfCircle x y r layer =
     [Lit ''0'', Lit ''CIRCLE'', Lit ''8'', Lit layer,
      Lit ''10'', Num x, Lit ''20'', Num y, Lit ''30'', Lit ''0'', Lit ''40'', Num r]"

definition dxfVertex :: "string \<Rightarrow> point \<Rightarrow> dxf_line list" where
  "dxfVertex layer p =
     [Lit ''0'', Lit ''VERTEX'', Lit ''8'', Lit layer,
      Lit ''10'', Num (fst p), Lit ''20'', Num (snd p), Lit ''30'', Lit ''0'']"

definition dxfPolyline :: "point list \<Rightarrow> string \<Rightarrow> bool \<Rightarrow> dxf_line list" where
  "dxfPolyline points layer closed' =
     [Lit ''0'', Lit ''POLYLINE'', Lit ''8'', Lit layer, Lit ''66'', Lit ''1'',
      Lit ''70'', Lit (if closed' then ''1'' else ''0''),
      Lit ''10'', Lit ''0'', Lit ''20'', Lit ''0'', Lit ''30'', Lit ''0'']
     @ concat (map (dxfVertex layer) points)
     @ [Lit ''0'', Lit ''SEQEND'']"

subsection \<open>Firetube\<close>

text \<open>
  \<open>fmt\<close> rounds to six decimals before the number is written. The product and the
  quotient are exact here and rounded to the nearest double in the script; a product
  beyond the range of the doubles is an infinity, which \<open>Math.round\<close> and the division
  leave as it is.
\<close>

definition fmt :: "real \<Rightarrow> dxf_line" where
  "fmt n =
     (if 2 ^ 1024 - 2 ^ 970 \<le> \<bar>n * 1000000\<bar> then Lit (if 0 < n then ''Infinity'' else ''-Infinity'')
      else Num (js_round (n * 1000000) / 1000000))"

definition addLayerDef :: "dxf_line list \<Rightarrow> string \<Rightarrow> dxf_line list" where
  "addLayerDef dxf name =
     dxf @ [Lit ''0'', Lit ''LAYER'', Lit ''2'', Lit name, Lit ''70'', Lit ''0'',
            Lit ''62'', Lit ''7'', Lit ''6'', Lit ''CONTINUOUS'']"

definition addLine ::
  "dxf_line list \<Rightarrow> string \<Rightarrow> real \<Rightarrow> real \<Rightarrow> real \<Rightarrow> real \<Rightarrow> dxf_line list" where
  "addLine dxf layer x1 y1 x2 y2 =
     dxf @ [Lit ''0'', Lit ''LINE'', Lit ''8'', Lit layer,
            Lit ''10'', fmt x1, Lit ''20'', fmt y1, Lit ''30'', Lit ''0'',
            Lit ''11'', fmt x2, Lit ''21'', fmt y2, Lit ''31'', Lit ''0'']"

definition addArc ::
  "dxf_line list \<Rightarrow> string \<Rightarrow> real \<Rightarrow> real \<Rightarrow> real \<Rightarrow> real \<Rightarrow> real \<Rightarrow> dxf_line list" where
  "addArc dxf layer cx cy r a1 a2 =
     dxf @ [Lit ''0'', Lit ''ARC'', Lit ''8'', Lit layer,
            Lit ''10'', fmt cx, Lit ''20'', fmt cy, Lit ''30'', Lit ''0'',
            Lit ''40'', fmt r, Lit ''50'', fmt a1, Lit ''51'', fmt a2]"

definition addCircle ::
  "dxf_line list \<Rightarrow> string \<Rightarrow> real \<Rightarrow> real \<Rightarrow> real \<Rightarrow> dxf_line list" where
  "addCircle dxf layer cx cy r =
     dxf @ [Lit ''0'', Lit ''CIRCLE'', Lit ''8'', Lit layer,
            Lit ''10'', fmt cx, Lit ''20'', fmt cy, Lit ''30'', Lit ''0'', Lit ''40'', fmt r]"

text \<open>
  \<open>addCircle\<close> at a centre whose coordinates are both \<open>NaN\<close>: \<open>fmt(NaN)\<close> is the
  text \<open>NaN\<close>.
\<close>

definition addCircleNaN :: "dxf_line list \<Rightarrow> string \<Rightarrow> real \<Rightarrow> dxf_line list" where
  "addCircleNaN dxf layer r =
     dxf @ [Lit ''0'', Lit ''CIRCLE'', Lit ''8'', Lit layer,
            Lit ''10'', Lit ''NaN'', Lit ''20'', Lit ''NaN'', Lit ''30'', Lit ''0'', Lit ''40'', fmt r]"

definition addObroundOutline ::
  "dxf_line list \<Rightarrow> string \<Rightarrow> real \<Rightarrow> real \<Rightarrow> real \<Rightarrow> real \<Rightarrow> ft_error + dxf_line list" where
  "addObroundOutline dxf layer longDim shortDim offsetX offsetY =
     (let L = longDim; W = shortDim in
      if L < W then Inl (LongLessThanShort L W)
      else
        let r = W / 2;
            halfStraight = (L - W) / 2;
            cx = halfStraight;
            dxf1 = addLine dxf layer (offsetX - cx) (offsetY + r) (offsetX + cx) (offsetY + r);
            dxf2 = addLine dxf1 layer (offsetX + cx) (offsetY - r) (offsetX - cx) (offsetY - r);
            dxf3 = addArc dxf2 layer (offsetX + cx) offsetY r 270 90;
            dxf4 = addArc dxf3 layer (offsetX - cx) offsetY r 90 270
        in Inr dxf4)"

text \<open>
  The object that \<open>computeInputs\<close> returns. Its numbers are of type \<open>jsnum\<close> when
  \<open>computeInputs\<close> returns it (\<open>ft_numbers\<close>) and reals, the hole count an integer, once
  they are known to be finite (\<open>ft_inputs\<close>).
\<close>

record ('n, 'c) ft_object =
  odLong :: 'n
  odShort :: 'n
  idLong :: 'n
  idShort :: 'n
  bcLong :: 'n
  bcShort :: 'n
  holeCount :: 'c
  holeDia :: 'n
  centerMode :: string

type_synonym ft_inputs = "(real, int) ft_object"

type_synonym ft_numbers = "(jsnum, jsnum) ft_object"

definition err_bind :: "'e + 'a \<Rightarrow> ('a \<Rightarrow> 'e + 'b) \<Rightarrow> 'e + 'b" where
  "err_bind m f = (case m of Inl e \<Rightarrow> Inl e | Inr x \<Rightarrow> f x)"

text \<open>
  \<open>buildDXF\<close>: \<open>push\<close> appends, \<open>pop\<close> removes the last line. The layer table is opened
  three times and the \<open>pop\<close> after the second removes that record's last line. A hole
  centre is \<open>None\<close> when \<open>perimeterPointObround\<close> returned \<open>[NaN, NaN]\<close> for it.
\<close>

definition buildDXF :: "ft_inputs \<Rightarrow> point option list \<Rightarrow> ft_error + dxf_line list" where
  "buildDXF inputs holeCenters =
     (let d1 = [] @ [Lit ''0'', Lit ''SECTION'', Lit ''2'', Lit ''HEADER''];
          d2 = d1 @ [Lit ''9'', Lit ''$INSUNITS'', Lit ''70'', Lit ''1''];
          d3 = d2 @ [Lit ''0'', Lit ''ENDSEC''];
          d4 = d3 @ [Lit ''0'', Lit ''SECTION'', Lit ''2'', Lit ''TABLES''];
          d5 = d4 @ [Lit ''0'', Lit ''TABLE'', Lit ''2'', Lit ''LAYER'', Lit ''70'', Lit ''2''];
          d6 = d5 @ [Lit ''0'', Lit ''TABLE'', Lit ''2'', Lit ''LAYER'', Lit ''70'', Lit ''2''];
          d7 = butlast d6;
          d8 = d7 @ [Lit ''0'', Lit ''TABLE'', Lit ''2'', Lit ''LAYER'', Lit ''70'', Lit ''2''];
          d9 = addLayerDef d8 ''Perimeter'';
          d10 = addLayerDef d9 ''Holes'';
          d11 = d10 @ [Lit ''0'', Lit ''ENDTAB''];
          d12 = d11 @ [Lit ''0'', Lit ''ENDSEC''];
          d13 = d12 @ [Lit ''0'', Lit ''SECTION'', Lit ''2'', Lit ''ENTITIES'']
      in err_bind (addObroundOutline d13 ''Perimeter'' (odLong inputs) (odShort inputs) 0 0)
           (\<lambda>d14. err_bind (addObroundOutline d14 ''Holes'' (idLong inputs) (idShort inputs) 0 0)
             (\<lambda>d15.
                let holeR = holeDia inputs / 2;
                    d16 = foldl (\<lambda>d c. case c of
                                         Some (x, y) \<Rightarrow> addCircle d ''Holes'' x y holeR
                                       | None \<Rightarrow> addCircleNaN d ''Holes'' holeR)
                            d15 holeCenters
                in Inr (d16 @ [Lit ''0'', Lit ''ENDSEC'', Lit ''0'', Lit ''EOF'']))))"

section \<open>Firetube: perimeter, hole placement, validation\<close>

definition obroundPerimeter :: "real \<Rightarrow> real \<Rightarrow> real" where
  "obroundPerimeter L W = (let r = W / 2; straight = L - W in (2 * straight) + (2 * pi * r))"

text \<open>
  \<open>obroundPerimeter\<close> as \<open>computeInputs\<close> calls it, on numbers that need not be finite.
\<close>

definition obroundPerimeter_num :: "jsnum \<Rightarrow> jsnum \<Rightarrow> jsnum" where
  "obroundPerimeter_num L W =
     (let r = js_div W (Fin 2);
          straight = js_sub L W
      in js_add (js_mul (Fin 2) straight) (js_mul (js_mul (Fin 2) (Fin pi)) r))"

text \<open>
  \<open>perimeterPointObround\<close>, on finite numbers. The result is \<open>None\<close> where the script
  returns \<open>[NaN, NaN]\<close>:

  \<^item> with a zero perimeter the remainder \<open>dist % total\<close> is \<open>NaN\<close>, every comparison
    fails, and the last branch computes with \<open>NaN\<close>;

  \<^item> with a zero radius the first branch divides by the quarter arc length 0: the
    quotient is \<open>0 / 0\<close> or an infinity, and the angle and both coordinates are \<open>NaN\<close>;
    so it is in the last branch.

  The three branches in between divide by a length that the comparison before the
  division has shown to be positive.
\<close>

definition perimeterPointObround :: "real \<Rightarrow> real \<Rightarrow> real \<Rightarrow> point option" where
  "perimeterPointObround L W dist' =
     (let r = W / 2;
          straight = L - W;
          cx = straight / 2;
          quarterArcLen = (pi * r) / 2;
          leftSemiLen = pi * r;
          total = (2 * straight) + (2 * pi * r)
      in if total = 0 then None
         else
           let d0 = js_rem (js_rem dist' total + total) total in
           if d0 \<le> quarterArcLen then
             (if quarterArcLen = 0 then None
              else
                let t = d0 / quarterArcLen; ang = (0 + 90 * t) * pi / 180
                in Some (cx + r * cos ang, r * sin ang))
           else
             let d1 = d0 - quarterArcLen in
             if d1 \<le> straight then
               (let t = d1 / straight in Some (cx + (- 2 * cx * t), r))
             else
               let d2 = d1 - straight in
               if d2 \<le> leftSemiLen then
                 (let t = d2 / leftSemiLen; ang = (90 + 180 * t) * pi / 180
                  in Some (- cx + r * cos ang, r * sin ang))
               else
                 let d3 = d2 - leftSemiLen in
                 if d3 \<le> straight then
                   (let t = d3 / straight in Some (- cx + (2 * cx * t), - r))
                 else if quarterArcLen = 0 then None
                 else
                   let d4 = d3 - straight;
                       t = d4 / quarterArcLen;
                       ang = (270 + 90 * t) * pi / 180
                   in Some (cx + r * cos ang, r * sin ang))"

text \<open>The \<open>for\<close> loop of \<open>computeHoleCenters\<close>, with the counter and the array so far.\<close>

function hole_loop ::
  "ft_inputs \<Rightarrow> real \<Rightarrow> real \<Rightarrow> int \<Rightarrow> point option list \<Rightarrow> point option list" where
  "hole_loop inputs c2c shift i centers =
     (if i < holeCount inputs then
        hole_loop inputs c2c shift (i + 1)
          (centers @ [perimeterPointObround (bcLong inputs) (bcShort inputs)
                        (of_int i * c2c + shift)])
      else centers)"
  by pat_completeness auto
termination
  by (relation "measure (\<lambda>(inputs, c2c, shift, i, centers). nat (holeCount inputs - i))") auto

declare hole_loop.simps [simp del]

definition computeHoleCenters :: "ft_inputs \<Rightarrow> point option list \<times> real" where
  "computeHoleCenters inputs =
     (let P = obroundPerimeter (bcLong inputs) (bcShort inputs);
          N = holeCount inputs;
          c2c = P / of_int N;
          shift = (if centerMode inputs = ''off'' then c2c / 2 else 0)
      in (hole_loop inputs c2c shift 0 [], c2c))"

text \<open>The form: the text of each input element.\<close>

record ft_form =
  odLong_value :: string
  odShort_value :: string
  idLong_value :: string
  idShort_value :: string
  bcLong_value :: string
  bcShort_value :: string
  holeCount_value :: string
  holeDia_value :: string
  centerMode_value :: string
  crossSection_value :: string

definition requireFilled :: "string \<Rightarrow> string \<Rightarrow> ft_error + unit" where
  "requireFilled v label = (if trim v = [] then Inl (Required label) else Inr ())"

definition requireAllMandatory :: "ft_form \<Rightarrow> ft_error + unit" where
  "requireAllMandatory f =
     err_bind (requireFilled (odLong_value f) ''Long Side OD'') (\<lambda>_.
     err_bind (requireFilled (odShort_value f) ''Short Side OD'') (\<lambda>_.
     err_bind (requireFilled (bcLong_value f) ''Long Side BC'') (\<lambda>_.
     err_bind (requireFilled (bcShort_value f) ''Short Side BC'') (\<lambda>_.
     err_bind (requireFilled (holeCount_value f) ''Hole Count'') (\<lambda>_.
     err_bind (requireFilled (holeDia_value f) ''Hole Diameter'') (\<lambda>_.
     if trim (crossSection_value f) = [] then
       err_bind (requireFilled (idLong_value f) ''Long Side ID'') (\<lambda>_.
       requireFilled (idShort_value f) ''Short Side ID'')
     else Inr ()))))))"

text \<open>
  \<open>applyCrossSectionToIDIfPresent\<close> writes \<open>OD - 2 * cs\<close>, rounded to three decimals, as
  text into the two ID inputs, and \<open>computeInputs\<close> parses that text again. The result
  here is the pair of numbers that is written, or \<open>None\<close> when the cross section is blank
  and the inputs keep the text that was typed.
\<close>

definition applyCrossSectionToIDIfPresent :: "ft_form \<Rightarrow> ft_error + (jsnum \<times> jsnum) option" where
  "applyCrossSectionToIDIfPresent f =
     (let raw = trim (crossSection_value f) in
      if raw = [] then Inr None
      else
        err_bind (parseInches_firetube raw) (\<lambda>cs.
        err_bind (requireFilled (odLong_value f) ''Long Side OD'') (\<lambda>_.
        err_bind (requireFilled (odShort_value f) ''Short Side OD'') (\<lambda>_.
        err_bind (parseInches_firetube (odLong_value f)) (\<lambda>odLong'.
        err_bind (parseInches_firetube (odShort_value f)) (\<lambda>odShort'.
          let newIdLong = js_sub odLong' (js_mul (Fin 2) cs);
              newIdShort = js_sub odShort' (js_mul (Fin 2) cs)
          in Inr (Some (js_div (Math_round (js_mul newIdLong (Fin 1000))) (Fin 1000),
                        js_div (Math_round (js_mul newIdShort (Fin 1000))) (Fin 1000)))))))))"

text \<open>
  \<open>parseInches\<close> on the text that \<open>fmtIn\<close> has written for a number: the text of a finite
  number has neither a blank nor a slash and \<open>Number\<close> reads the number back; the texts
  \<open>Infinity\<close>, \<open>-Infinity\<close> and \<open>NaN\<close> are rejected as invalid numbers.
\<close>

fun parse_written :: "jsnum \<Rightarrow> ft_error + jsnum" where
  "parse_written (Fin x) = Inr (Fin x)"
| "parse_written PInf = Inl (InvalidNumber ''Infinity'')"
| "parse_written NInf = Inl (InvalidNumber ''-Infinity'')"
| "parse_written NaN = Inl (InvalidNumber ''NaN'')"

definition check :: "bool \<Rightarrow> ft_error \<Rightarrow> ft_error + unit" where
  "check failed e = (if failed then Inl e else Inr ())"

definition computeInputs :: "ft_form \<Rightarrow> ft_error + ft_numbers" where
  "computeInputs f =
     err_bind (requireAllMandatory f) (\<lambda>_.
     err_bind (applyCrossSectionToIDIfPresent f) (\<lambda>written.
     err_bind (parseInches_firetube (odLong_value f)) (\<lambda>odLong'.
     err_bind (parseInches_firetube (odShort_value f)) (\<lambda>odShort'.
     err_bind (case written of Some (l, s) \<Rightarrow> parse_written l
               | None \<Rightarrow> parseInches_firetube (idLong_value f)) (\<lambda>idLong'.
     err_bind (case written of Some (l, s) \<Rightarrow> parse_written s
               | None \<Rightarrow> parseInches_firetube (idShort_value f)) (\<lambda>idShort'.
     err_bind (parseInches_firetube (bcLong_value f)) (\<lambda>bcLong'.
     err_bind (parseInches_firetube (bcShort_value f)) (\<lambda>bcShort'.
     let holeCount' = parseInt (holeCount_value f) in
     err_bind (parseInches_firetube (holeDia_value f)) (\<lambda>holeDia'.
     let centerMode' = centerMode_value f in
     err_bind (check (js_lt odLong' odShort') OdLongShort) (\<lambda>_.
     err_bind (check (js_lt idLong' idShort') IdLongShort) (\<lambda>_.
     err_bind (check (js_lt bcLong' bcShort') BcLongShort) (\<lambda>_.
     err_bind (check (js_ge idLong' odLong' \<or> js_ge idShort' odShort') IdNotSmallerThanOd) (\<lambda>_.
     err_bind (check (js_gt bcLong' odLong' \<or> js_gt bcShort' odShort') BcOutsideOd) (\<lambda>_.
     err_bind (check (\<not> js_gt holeCount' (Fin 0)) HoleCountNotPositive) (\<lambda>_.
     err_bind (check (\<not> js_gt holeDia' (Fin 0)) HoleDiaNotPositive) (\<lambda>_.
     let P = obroundPerimeter_num bcLong' bcShort';
         c2c = js_div P holeCount'
     in err_bind (check (js_le c2c holeDia') BoltHolesOverlap) (\<lambda>_.
        Inr \<lparr>odLong = odLong', odShort = odShort', idLong = idLong', idShort = idShort',
             bcLong = bcLong', bcShort = bcShort', holeCount = holeCount', holeDia = holeDia',
             centerMode = centerMode'\<rparr>)))))))))))))))))"

text \<open>
  The object of \<open>computeInputs\<close> with its numbers as reals, when all of them are finite.
  The hole count that \<open>parseInt\<close> returns is then an integer.
\<close>

fun fin_val :: "jsnum \<Rightarrow> real option" where
  "fin_val (Fin x) = Some x"
| "fin_val a = None"

definition finite_inputs :: "ft_numbers \<Rightarrow> ft_inputs option" where
  "finite_inputs v =
     Option.bind (fin_val (odLong v)) (\<lambda>odLong'.
     Option.bind (fin_val (odShort v)) (\<lambda>odShort'.
     Option.bind (fin_val (idLong v)) (\<lambda>idLong'.
     Option.bind (fin_val (idShort v)) (\<lambda>idShort'.
     Option.bind (fin_val (bcLong v)) (\<lambda>bcLong'.
     Option.bind (fin_val (bcShort v)) (\<lambda>bcShort'.
     Option.bind (fin_val (holeCount v)) (\<lambda>holeCount'.
     Option.bind (fin_val (holeDia v)) (\<lambda>holeDia'.
       Some \<lparr>odLong = odLong', odShort = odShort', idLong = idLong', idShort = idShort',
             bcLong = bcLong', bcShort = bcShort', holeCount = \<lfloor>holeCount'\<rfloor>,
             holeDia = holeDia', centerMode = centerMode v\<rparr>))))))))"

record ft_breakdown =
  longToOD :: real
  longToID :: real
  shortToOD :: real
  shortToID :: real

definition clearanceBreakdownBySides :: "ft_inputs \<Rightarrow> ft_breakdown" where
  "clearanceBreakdownBySides inputs =
     (let holeR = holeDia inputs / 2 in
      \<lparr>longToOD = ((odShort inputs - bcShort inputs) / 2) - holeR,
       longToID = ((bcShort inputs - idShort inputs) / 2) - holeR,
       shortToOD = ((odLong inputs - bcLong inputs) / 2) - holeR,
       shortToID = ((bcLong inputs - idLong inputs) / 2) - holeR\<rparr>)"

text \<open>A clearance message: its label and the clearance it reports.\<close>

record ft_evals =
  warnings :: "(string \<times> real) list"
  errors :: "(string \<times> real) list"

definition rule :: "string \<Rightarrow> real \<Rightarrow> ft_evals \<Rightarrow> ft_evals" where
  "rule label v ev =
     (if v < 0.5 then ev\<lparr>errors := errors ev @ [(label, v)]\<rparr>
      else if v < 1.0 then ev\<lparr>warnings := warnings ev @ [(label, v)]\<rparr>
      else ev)"

definition evaluateClearances :: "ft_breakdown \<Rightarrow> ft_evals" where
  "evaluateClearances bd =
     rule ''Short Side - Edge Of Hole to ID'' (shortToID bd)
       (rule ''Short Side - Edge Of Hole to OD'' (shortToOD bd)
         (rule ''Long Side - Edge Of Hole to ID'' (longToID bd)
           (rule ''Long Side - Edge Of Hole to OD'' (longToOD bd)
             \<lparr>warnings = [], errors = []\<rparr>)))"

text \<open>
  \<open>runValidation\<close>. The functions that place the holes and grade the clearances are
  modelled on finite numbers. A fraction with a group of more than 308 digits can make
  \<open>computeInputs\<close> return an object with a number that is not finite; the script goes on
  with it (and with an infinite hole count its loop does not end), which is not followed
  here: the result is then \<open>NotFinite\<close>.
\<close>

datatype ft_result =
    Validated ft_inputs "point option list" ft_evals
  | NotFinite ft_numbers

definition runValidation :: "ft_form \<Rightarrow> ft_error + ft_result" where
  "runValidation f =
     err_bind (computeInputs f) (\<lambda>inputs.
       case finite_inputs inputs of
         None \<Rightarrow> Inr (NotFinite inputs)
       | Some inputs' \<Rightarrow>
           let (centers, c2c) = computeHoleCenters inputs';
               bd = clearanceBreakdownBySides inputs';
               evals = evaluateClearances bd
           in Inr (Validated inputs' centers evals))"

section \<open>Flange: clearance, validation, export\<close>

definition sdfRoundedRect :: "real \<Rightarrow> real \<Rightarrow> real \<Rightarrow> real \<Rightarrow> real \<Rightarrow> real" where
  "sdfRoundedRect px py hw hh rr =
     (let ax = \<bar>px\<bar>;
          ay = \<bar>py\<bar>;
          innerX = hw - rr;
          innerY = hh - rr;
          qx = ax - innerX;
          qy = ay - innerY;
          mx = max qx 0;
          my = max qy 0
      in hypot mx my + min (max qx qy) 0 - rr)"

text \<open>\<open>clampRadius\<close> is only called with a finite radius.\<close>

definition clampRadius :: "real \<Rightarrow> real \<Rightarrow> real \<Rightarrow> real" where
  "clampRadius r w h =
     (let hw = w / 2; hh = h / 2 in
      if r \<le> 0 then 0 else max 0 (min r (min hw hh)))"

definition gapCircleToRoundedOD ::
  "real \<Rightarrow> real \<Rightarrow> real \<Rightarrow> real \<Rightarrow> real \<Rightarrow> real \<Rightarrow> real" where
  "gapCircleToRoundedOD x y r odX' odY' odR =
     (let hw = odX' / 2;
          hh = odY' / 2;
          rr = clampRadius odR odX' odY';
          sdf = sdfRoundedRect x y hw hh rr
      in (- sdf) - r)"

definition gapCircleToCenterCutoutRoundedRect ::
  "real \<Rightarrow> real \<Rightarrow> real \<Rightarrow> real \<Rightarrow> real \<Rightarrow> real \<Rightarrow> real" where
  "gapCircleToCenterCutoutRoundedRect x y r cutX cutY cutR =
     (let hw = cutX / 2;
          hh = cutY / 2;
          rr = clampRadius cutR cutX cutY;
          sdf = sdfRoundedRect x y hw hh rr
      in sdf - r)"

text \<open>The inner function \<open>arc\<close> of \<open>roundedRectPoints\<close>: the points it pushes.\<close>

definition corner_arc :: "real \<Rightarrow> nat \<Rightarrow> real \<Rightarrow> real \<Rightarrow> real \<Rightarrow> real \<Rightarrow> point list" where
  "corner_arc rr segmentsPerCorner cx cy start end' =
     map (\<lambda>i. let t = start + (real i / real segmentsPerCorner) * (end' - start)
              in (cx + rr * cos t, cy + rr * sin t))
       [0 ..< Suc segmentsPerCorner]"

definition roundedRectPoints :: "real \<Rightarrow> real \<Rightarrow> real \<Rightarrow> nat \<Rightarrow> point list" where
  "roundedRectPoints w h r segmentsPerCorner =
     (let hw = w / 2;
          hh = h / 2;
          rr = clampRadius r w h
      in if rr = 0 then [(- hw, - hh), (hw, - hh), (hw, hh), (- hw, hh)]
         else corner_arc rr segmentsPerCorner (hw - rr) (- hh + rr) (- pi / 2) 0
            @ corner_arc rr segmentsPerCorner (hw - rr) (hh - rr) 0 (pi / 2)
            @ corner_arc rr segmentsPerCorner (- hw + rr) (hh - rr) (pi / 2) pi
            @ corner_arc rr segmentsPerCorner (- hw + rr) (- hh + rr) pi ((3 * pi) / 2))"

datatype flange_error =
    OdXNotPositive
  | OdYNotPositive
  | CornerRadiusInvalid
  | CornerRadiusTooLarge
  | BhCCXNotPositive
  | BhCCYNotPositive
  | BhDiaNotPositive
  | CutoutDiaNotPositive
  | CutoutXNotPositive
  | CutoutYNotPositive
  | CutoutRadiusInvalid
  | CutoutRadiusTooLarge
  | HolesTouchOD
  | HolesTouchX
  | HolesTouchY
  | CutoutTouchesOD
  | HolesTouchCutout

record flange_form =
  odX_value :: string
  odY_value :: string
  cornerR_value :: string
  bhCCX_value :: string
  bhCCY_value :: string
  bhDia_value :: string
  cutoutType_value :: string
  cutoutDia_value :: string
  cutoutX_value :: string
  cutoutY_value :: string
  cutoutR_value :: string

text \<open>\<open>lastValid\<close>: the cutout fields of the kind that was not chosen may hold \<open>NaN\<close>.\<close>

record flange_spec =
  odX :: real
  odY :: real
  cornerR :: real
  bhCCX :: real
  bhCCY :: real
  bhDia :: real
  cutoutType :: string
  cutoutDia :: "real option"
  cutoutX :: "real option"
  cutoutY :: "real option"
  cutoutR :: real

text \<open>\<open>!Number.isFinite(v) || v <= 0\<close> and \<open>!Number.isFinite(v) || v < 0\<close>.\<close>

definition not_positive :: "real option \<Rightarrow> bool" where
  "not_positive v = (case v of None \<Rightarrow> True | Some x \<Rightarrow> x \<le> 0)"

definition not_nonnegative :: "real option \<Rightarrow> bool" where
  "not_nonnegative v = (case v of None \<Rightarrow> True | Some x \<Rightarrow> x < 0)"

text \<open>
  \<open>Number.isFinite(w) && Number.isFinite(h) && Number.isFinite(r) &&
  clampRadius(r, w, h) !== r\<close>.
\<close>

definition radius_too_large :: "real option \<Rightarrow> real option \<Rightarrow> real option \<Rightarrow> bool" where
  "radius_too_large r w h =
     (case (r, w, h) of
        (Some r', Some w', Some h') \<Rightarrow> clampRadius r' w' h' \<noteq> r'
      | _ \<Rightarrow> False)"

text \<open>
  A running minimum that starts at \<open>Infinity\<close> (here \<open>None\<close>), and the test
  \<open>min <= 0\<close> on it.
\<close>

definition min_gap :: "real list \<Rightarrow> real option" where
  "min_gap gs = foldl (\<lambda>m g. case m of None \<Rightarrow> Some g | Some a \<Rightarrow> Some (min a g)) None gs"

definition not_clear :: "real option \<Rightarrow> bool" where
  "not_clear m = (case m of None \<Rightarrow> False | Some a \<Rightarrow> a \<le> 0)"

definition push_if :: "bool \<Rightarrow> 'e \<Rightarrow> 'e list" where
  "push_if c e = (if c then [e] else [])"

text \<open>The first block of \<open>validateAndPreview\<close>: basic numeric validation.\<close>

definition flange_basic_errors :: "flange_form \<Rightarrow> flange_error list" where
  "flange_basic_errors f =
     (let odX' = parseInches (odX_value f);
          odY' = parseInches (odY_value f);
          cornerR' = (if trim (cornerR_value f) \<noteq> [] then parseInches (cornerR_value f) else Some 0);
          bhCCX' = parseInches (bhCCX_value f);
          bhCCY' = parseInches (bhCCY_value f);
          bhDia' = parseInches (bhDia_value f);
          cutoutDia' = parseInches (cutoutDia_value f);
          cutoutX' = parseInches (cutoutX_value f);
          cutoutY' = parseInches (cutoutY_value f);
          cutoutR' = (if trim (cutoutR_value f) \<noteq> [] then parseInches (cutoutR_value f) else Some 0)
      in push_if (not_positive odX') OdXNotPositive
       @ push_if (not_positive odY') OdYNotPositive
       @ push_if (trim (cornerR_value f) \<noteq> [] \<and> not_nonnegative cornerR') CornerRadiusInvalid
       @ push_if (radius_too_large cornerR' odX' odY') CornerRadiusTooLarge
       @ push_if (not_positive bhCCX') BhCCXNotPositive
       @ push_if (not_positive bhCCY') BhCCYNotPositive
       @ push_if (not_positive bhDia') BhDiaNotPositive
       @ (if cutoutType_value f = ''circle'' then
            push_if (not_positive cutoutDia') CutoutDiaNotPositive
          else
            push_if (not_positive cutoutX') CutoutXNotPositive
          @ push_if (not_positive cutoutY') CutoutYNotPositive
          @ push_if (trim (cutoutR_value f) \<noteq> [] \<and> not_nonnegative cutoutR') CutoutRadiusInvalid
          @ push_if (radius_too_large cutoutR' cutoutX' cutoutY') CutoutRadiusTooLarge))"

text \<open>
  The second block: the geometry checks, on the numbers the first block accepted. A cutout
  number that is \<open>NaN\<close> cannot reach this block for the chosen kind of cutout; the
  comparisons on it would all be false, so it adds no error.
\<close>

definition flange_geometry_errors ::
  "real \<Rightarrow> real \<Rightarrow> real \<Rightarrow> real \<Rightarrow> real \<Rightarrow> real \<Rightarrow> string \<Rightarrow>
   real option \<Rightarrow> real option \<Rightarrow> real option \<Rightarrow> real \<Rightarrow> flange_error list" where
  "flange_geometry_errors odX' odY' cornerR' bhCCX' bhCCY' bhDia' cutoutType'
       cutoutDia' cutoutX' cutoutY' cutoutR' =
     (let holeR = bhDia' / 2;
          hx = bhCCX' / 2;
          hy = bhCCY' / 2;
          holeCenters = [(- hx, - hy), (hx, - hy), (- hx, hy), (hx, hy)];
          minHoleODGap =
            min_gap (map (\<lambda>(x, y). gapCircleToRoundedOD x y holeR odX' odY' cornerR') holeCenters)
      in push_if (not_clear minHoleODGap) HolesTouchOD
       @ push_if (bhCCX' \<le> bhDia') HolesTouchX
       @ push_if (bhCCY' \<le> bhDia') HolesTouchY
       @ (if cutoutType' = ''circle'' then
            (case cutoutDia' of
               None \<Rightarrow> []
             | Some dia \<Rightarrow>
                 let cr = dia / 2;
                     g = gapCircleToRoundedOD 0 0 cr odX' odY' cornerR'
                 in push_if (g \<le> 0) CutoutTouchesOD)
          else
            (case (cutoutX', cutoutY') of
               (Some cx, Some cy) \<Rightarrow>
                 let pts = roundedRectPoints cx cy cutoutR' 24;
                     minCutoutODGap =
                       min_gap (map (\<lambda>(x, y). gapCircleToRoundedOD x y 0 odX' odY' cornerR') pts)
                 in push_if (not_clear minCutoutODGap) CutoutTouchesOD
             | _ \<Rightarrow> []))
       @ (if cutoutType' = ''circle'' then
            (case cutoutDia' of
               None \<Rightarrow> []
             | Some dia \<Rightarrow>
                 let cr = dia / 2;
                     minHoleIDGap = min_gap (map (\<lambda>(x, y). hypot x y - (holeR + cr)) holeCenters)
                 in push_if (not_clear minHoleIDGap) HolesTouchCutout)
          else
            (case (cutoutX', cutoutY') of
               (Some cx, Some cy) \<Rightarrow>
                 let minHoleIDGap =
                       min_gap (map (\<lambda>(x, y).
                                  gapCircleToCenterCutoutRoundedRect x y holeR cx cy cutoutR')
                                holeCenters)
                 in push_if (not_clear minHoleIDGap) HolesTouchCutout
             | _ \<Rightarrow> [])))"

text \<open>
  \<open>validateAndPreview\<close>: the errors of the first block are reported when there are any;
  otherwise the errors of the second block are; otherwise \<open>lastValid\<close> is set. The last
  case of the \<open>case\<close> below is never taken: when one of the six numbers is \<open>NaN\<close> the first
  block has an error.
\<close>

definition flange_validateAndPreview :: "flange_form \<Rightarrow> flange_error list + flange_spec" where
  "flange_validateAndPreview f =
     (let odX' = parseInches (odX_value f);
          odY' = parseInches (odY_value f);
          cornerR' = (if trim (cornerR_value f) \<noteq> [] then parseInches (cornerR_value f) else Some 0);
          bhCCX' = parseInches (bhCCX_value f);
          bhCCY' = parseInches (bhCCY_value f);
          bhDia' = parseInches (bhDia_value f);
          cutoutType' = cutoutType_value f;
          cutoutDia' = parseInches (cutoutDia_value f);
          cutoutX' = parseInches (cutoutX_value f);
          cutoutY' = parseInches (cutoutY_value f);
          cutoutR' = (if trim (cutoutR_value f) \<noteq> [] then parseInches (cutoutR_value f) else Some 0);
          errors1 = flange_basic_errors f
      in if errors1 \<noteq> [] then Inl errors1
         else
           case (odX', odY', bhCCX', bhCCY', bhDia') of
             (Some ox, Some oy, Some ccx, Some ccy, Some dia) \<Rightarrow>
               let cr = (case cornerR' of None \<Rightarrow> 0 | Some r \<Rightarrow> r);
                   ctr = (case cutoutR' of None \<Rightarrow> 0 | Some r \<Rightarrow> r);
                   errors2 = flange_geometry_errors ox oy cr ccx ccy dia cutoutType'
                               cutoutDia' cutoutX' cutoutY' ctr
               in if errors2 \<noteq> [] then Inl errors2
                  else Inr \<lparr>odX = ox, odY = oy, cornerR = cr, bhCCX = ccx, bhCCY = ccy,
                            bhDia = dia, cutoutType = cutoutType', cutoutDia = cutoutDia',
                            cutoutX = cutoutX', cutoutY = cutoutY', cutoutR = ctr\<rparr>
           | _ \<Rightarrow> Inl errors1)"

text \<open>
  \<open>downloadDXF\<close>. It runs only with a \<open>lastValid\<close> that \<open>validateAndPreview\<close> has set,
  where the numbers of the chosen kind of cutout are finite; for any other record the
  cutout is left out here.
\<close>

definition flange_downloadDXF :: "flange_spec \<Rightarrow> dxf_line list" where
  "flange_downloadDXF v =
     (let odPts = roundedRectPoints (odX v) (odY v) (cornerR v) 24;
          hx = bhCCX v / 2;
          hy = bhCCY v / 2;
          r = bhDia v / 2;
          holes = [(- hx, - hy), (hx, - hy), (- hx, hy), (hx, hy)]
      in dxfHeader
       @ dxfPolyline odPts ''Perimeter'' True
       @ concat (map (\<lambda>(x, y). dxfCircle x y r ''Holes'') holes)
       @ (if cutoutType v = ''circle'' then
            (case cutoutDia v of
               Some dia \<Rightarrow> dxfCircle 0 0 (dia / 2) ''Holes''
             | None \<Rightarrow> [])
          else
            (case (cutoutX v, cutoutY v) of
               (Some cx, Some cy) \<Rightarrow>
                 dxfPolyline (roundedRectPoints cx cy (cutoutR v) 24) ''Holes'' True
             | _ \<Rightarrow> []))
       @ dxfFooter)"

section \<open>Jumper: tangents, arcs, outline, validation\<close>















record jumper_spec =
  idDia :: real
  boltDia :: real
  cc :: real
  boltEdgeToOD :: real
  idEdgeToOD :: real
  idR :: real
  boltR :: real
  RboltOuter :: real
  RidOuter :: real
  odPts :: "point list"


definition jumper_downloadDXF :: "jumper_spec \<Rightarrow> dxf_line list" where
  "jumper_downloadDXF v =
     dxfHeader
     @ dxfPolyline (odPts v) ''Perimeter'' True
     @ dxfCircle 0 0 (idR v) ''Holes''
     @ dxfCircle (- cc v / 2) 0 (boltR v) ''Holes''
     @ dxfCircle (cc v / 2) 0 (boltR v) ''Holes''
     @ dxfFooter"

section \<open>Notions used in the properties\<close>

text \<open>
  The script computes with doubles. A number that is typed and every sum, difference,
  product and quotient is rounded to the nearest double, with a relative error of at most
  \<open>2^-53\<close> as long as the magnitudes stay between \<open>2^-1022\<close> and \<open>2^1023\<close>. A comparison
  of two short expressions in the numbers \<open>xs\<close> therefore comes out in the script as it
  does in exact arithmetic when the numbers are of ordinary size (\<open>within_range\<close>: 0, or
  of a magnitude between \<open>2^-1000\<close> and \<open>2^1000\<close>) and the two sides differ by more than
  \<open>rounding_slack xs\<close>, which leaves room for some thousand such roundings. The properties of comparisons on computed numbers are stated with this
  slack; at a tie, or nearer to one than the slack, the doubles decide.
\<close>

definition rounding_slack :: "real list \<Rightarrow> real" where
  "rounding_slack xs = sum_list (map abs xs) / 2 ^ 40 + 1 / 2 ^ 1000"

definition within_range :: "real list \<Rightarrow> bool" where
  "within_range xs \<longleftrightarrow> list_all (\<lambda>x. x = 0 \<or> 1 / 2 ^ 1000 \<le> \<bar>x\<bar> \<and> \<bar>x\<bar> \<le> 2 ^ 1000) xs"

text \<open>
  \<open>v\<close> is \<open>n\<close> rounded to six decimals, as far as doubles can tell: \<open>v\<close> is a multiple of
  \<open>10^-6\<close> and at most \<open>5 * 10^-7\<close> away from \<open>n\<close>, each up to the rounding of the
  product and of the quotient.
\<close>

definition six_decimals :: "real \<Rightarrow> real \<Rightarrow> bool" where
  "six_decimals n v \<longleftrightarrow>
     \<bar>v - of_int \<lfloor>v * 1000000 + 1 / 2\<rfloor> / 1000000\<bar> \<le> rounding_slack [n] \<and>
     \<bar>v - n\<bar> \<le> 1 / 2000000 + rounding_slack [n]"

text \<open>
  The point of the obround outline at the arc length \<open>s\<close>, for \<open>0 \<le> s \<le> P(L, W)\<close>, as
  the specification describes \<open>pointAtArcLength\<close>: the outline is run through counter-
  clockwise from \<open>(L / 2, 0)\<close>, first the upper quarter of the right cap, then the top
  straight from right to left, the left cap, the bottom straight and the lower quarter of
  the right cap. On a cap of radius \<open>r\<close> the arc length \<open>u\<close> turns the radius by the angle
  \<open>u / r\<close>; on a straight it moves the point by \<open>u\<close>.
\<close>

definition obround_point :: "real \<Rightarrow> real \<Rightarrow> real \<Rightarrow> point" where
  "obround_point L W s =
     (let r = W / 2;
          straight = L - W;
          cx = straight / 2;
          quarter = (pi * r) / 2
      in if s \<le> quarter then (cx + r * cos (s / r), r * sin (s / r))
         else if s - quarter \<le> straight then (cx - (s - quarter), r)
         else if s - quarter - straight \<le> pi * r then
           (- cx + r * cos (pi / 2 + (s - quarter - straight) / r),
            r * sin (pi / 2 + (s - quarter - straight) / r))
         else if s - quarter - straight - pi * r \<le> straight then
           (- cx + (s - quarter - straight - pi * r), - r)
         else
           (cx + r * cos (3 * pi / 2 + (s - quarter - straight - pi * r - straight) / r),
            r * sin (3 * pi / 2 + (s - quarter - straight - pi * r - straight) / r)))"

text \<open>
  A point lies on the obround outline when it is on one of the two straights, at the
  height of the radius between the cap centres, or on a cap, at the distance of the
  radius from the cap centre on its side and beyond it.
\<close>

definition on_obround :: "real \<Rightarrow> real \<Rightarrow> point \<Rightarrow> bool" where
  "on_obround L W p \<longleftrightarrow>
     (let r = W / 2; cx = (L - W) / 2 in
      \<bar>fst p\<bar> \<le> cx \<and> \<bar>snd p\<bar> = r \<or>
      cx \<le> \<bar>fst p\<bar> \<and> (\<bar>fst p\<bar> - cx)\<^sup>2 + (snd p)\<^sup>2 = r\<^sup>2)"

text \<open>
  A DXF text is a sequence of pairs, a group code line and a value line. \<open>group_codes\<close> are
  the lines at the positions of the codes; a code is a non-empty run of digits.
\<close>

fun group_codes :: "dxf_line list \<Rightarrow> dxf_line list" where
  "group_codes (c # v # rest) = c # group_codes rest"
| "group_codes [c] = [c]"
| "group_codes [] = []"

definition is_group_code :: "dxf_line \<Rightarrow> bool" where
  "is_group_code l = (case l of Lit s \<Rightarrow> s \<noteq> [] \<and> list_all is_digit s | Num x \<Rightarrow> False)"

definition well_paired :: "dxf_line list \<Rightarrow> bool" where
  "well_paired ls \<longleftrightarrow> even (length ls) \<and> list_all is_group_code (group_codes ls)"

text \<open>The numbers written into a DXF text, in order.\<close>

fun numbers :: "dxf_line list \<Rightarrow> real list" where
  "numbers [] = []"
| "numbers (Lit s # ls) = numbers ls"
| "numbers (Num x # ls) = x # numbers ls"

text \<open>
  The entities of a DXF text, each with its layer: a pair with code 0 opens an entity and
  the pair with code 8 after it names the layer.
\<close>

fun entities :: "dxf_line list \<Rightarrow> (dxf_line \<times> dxf_line) list" where
  "entities (c # t # c' # l # rest) =
     (if c = Lit ''0'' \<and> c' = Lit ''8'' then (t, l) # entities rest
      else entities (c' # l # rest))"
| "entities ls = []"

text \<open>Forms used as examples.\<close>

definition ft_example :: ft_form where
  "ft_example = \<lparr>odLong_value = ''20'', odShort_value = ''12'', idLong_value = ''12'',
     idShort_value = ''4'', bcLong_value = ''16'', bcShort_value = ''8'',
     holeCount_value = ''8'', holeDia_value = ''1'', centerMode_value = ''on'',
     crossSection_value = ''''\<rparr>"

text \<open>The example with a bolt circle of width 0 and a negative short side of the ID.\<close>

definition ft_flat :: ft_form where
  "ft_flat = \<lparr>odLong_value = ''20'', odShort_value = ''12'', idLong_value = ''12'',
     idShort_value = ''-4'', bcLong_value = ''16'', bcShort_value = ''0'',
     holeCount_value = ''8'', holeDia_value = ''1'', centerMode_value = ''on'',
     crossSection_value = ''''\<rparr>"


definition ft_crowded :: ft_form where
  "ft_crowded = \<lparr>odLong_value = ''14'', odShort_value = ''14'', idLong_value = ''6'',
     idShort_value = ''6'', bcLong_value = ''10'', bcShort_value = ''10'',
     holeCount_value = ''40'', holeDia_value = ''1.0'', centerMode_value = ''on'',
     crossSection_value = ''''\<rparr>"

definition flange_example :: flange_form where
  "flange_example = \<lparr>odX_value = ''5'', odY_value = ''5'', cornerR_value = ''0.5'',
     bhCCX_value = ''3.5'', bhCCY_value = ''3.5'', bhDia_value = ''0.5'',
     cutoutType_value = ''circle'', cutoutDia_value = ''3.0'',
     cutoutX_value = '''', cutoutY_value = '''', cutoutR_value = ''''\<rparr>"












section \<open>Properties\<close>

subsection \<open>The shared parser never returns a negative number\<close>

lemma set_trim: "set (trim s) \<subseteq> set s"
proof -
  have "set (trim s) = set (dropWhile is_space (rev (dropWhile is_space s)))"
    by (simp add: trim_def)
  also have "\<dots> \<subseteq> set (rev (dropWhile is_space s))"
    by (meson set_dropWhileD subsetI)
  also have "\<dots> \<subseteq> set s"
    using set_dropWhileD by fastforce
  finally show ?thesis .
qed

lemma scale10_nonneg: "0 \<le> m \<Longrightarrow> 0 \<le> scale10 m e"
  by (simp add: scale10_def)

lemma unsigned_decimal_nonneg: "unsigned_decimal s = Some v \<Longrightarrow> 0 \<le> v"
  by (auto simp: unsigned_decimal_def Let_def scale10_nonneg split: if_splits)

lemma finite_or_NaN_Some: "finite_or_NaN v = Some w \<Longrightarrow> w = v \<or> w = 0"
  by (auto simp: finite_or_NaN_def split: if_splits)

lemma finite_or_NaN_nonneg: "finite_or_NaN v = Some w \<Longrightarrow> 0 \<le> v \<Longrightarrow> 0 \<le> w"
  by (auto dest: finite_or_NaN_Some)

lemma radix_literal_nonneg: "radix_literal b ds = Some v \<Longrightarrow> 0 \<le> v"
  by (auto simp: radix_literal_def dest!: finite_or_NaN_nonneg split: if_splits)

lemma Number_nonneg:
  assumes "CHR ''-'' \<notin> set s" and "Number s = Some v"
  shows "0 \<le> v"
proof -
  define t where "t = trim s"
  have nohy: "CHR ''-'' \<notin> set t"
    using assms(1) set_trim unfolding t_def by blast
  have hd: "t \<noteq> [] \<Longrightarrow> hd t \<noteq> CHR ''-''"
    using nohy by (cases t) auto
  from assms(2) show ?thesis
    unfolding Number_def t_def [symmetric] Let_def
    using hd
    by (auto split: if_splits bind_splits
        dest!: finite_or_NaN_Some dest: radix_literal_nonneg unsigned_decimal_nonneg)
qed

lemma set_collapse_spaces: "set (collapse_spaces s) \<subseteq> insert CHR '' '' (set s)"
  by (induction s rule: collapse_spaces.induct) auto

lemma no_hyphen_normalised: "CHR ''-'' \<notin> set (collapse_spaces (hyphens_to_spaces s))"
proof -
  have "CHR ''-'' \<notin> set (hyphens_to_spaces s)"
    by (auto simp: hyphens_to_spaces_def)
  then show ?thesis
    using set_collapse_spaces [of "hyphens_to_spaces s"] by auto
qed

lemma split_on_nonempty: "split_on c s \<noteq> []"
  by (induction s) auto

lemma length_split_on: "length (split_on c s) = Suc (length (filter (\<lambda>x. x = c) s))"
  by (induction s) (auto simp: split_on_nonempty)

lemma set_split_on: "p \<in> set (split_on c s) \<Longrightarrow> set p \<subseteq> set s"
proof (induction s arbitrary: p)
  case Nil
  then show ?case by simp
next
  case (Cons a s)
  show ?case
  proof (cases "a = c")
    case True
    with Cons show ?thesis by auto
  next
    case False
    obtain q qs where q: "split_on c s = q # qs"
      using split_on_nonempty [of c s] by (cases "split_on c s") auto
    with False Cons.prems have "p = a # q \<or> p \<in> set qs" by auto
    with Cons.IH q show ?thesis by fastforce
  qed
qed

lemma split_on_nth: "i < length (split_on c s) \<Longrightarrow> set (split_on c s ! i) \<subseteq> set s"
  using set_split_on nth_mem by blast

lemma split_on_two: "c \<in> set s \<Longrightarrow> 2 \<le> length (split_on c s)"
proof -
  assume "c \<in> set s"
  then have "filter (\<lambda>x. x = c) s \<noteq> []"
    by (simp add: filter_empty_conv)
  then have "0 < length (filter (\<lambda>x. x = c) s)" by simp
  then show ?thesis unfolding length_split_on by linarith
qed

lemma Number_part_nonneg:
  assumes "CHR ''-'' \<notin> set s" and "i < length (split_on c s)"
    and "Number (split_on c s ! i) = Some v"
  shows "0 \<le> v"
  using Number_nonneg [OF _ assms(3)] split_on_nth [OF assms(2)] assms(1) by blast

lemmas parse_eval =
  parseInches_def Number_def trim_def is_space_def is_digit_def hyphens_to_spaces_def
  unsigned_decimal_def exponent_part_def digits_val_def radix_val_def radix_digit_val_def
  finite_or_NaN_def scale10_def Let_def

text \<open>
  C10. Whatever the input text, \<open>parseInches\<close> of the ellipse, flange and jumper
  generators never returns a negative number: every hyphen is replaced by a space before
  the text is split and converted, so a leading minus sign is dropped and not rejected;
  the text \<open>-5\<close> parses to 5.
\<close>

theorem parseInches_never_negative:
  "(parseInches str = Some v \<longrightarrow> 0 \<le> v) \<and> parseInches ''-5'' = Some 5"
proof
  show "parseInches str = Some v \<longrightarrow> 0 \<le> v"
  proof
    assume res: "parseInches str = Some v"
    define s where "s = collapse_spaces (hyphens_to_spaces (trim str))"
    define parts where "parts = split_on CHR '' '' s"
    have nh: "CHR ''-'' \<notin> set s"
      unfolding s_def by (rule no_hyphen_normalised)
    have part: "\<And>i w. i < length parts \<Longrightarrow> Number (parts ! i) = Some w \<Longrightarrow> 0 \<le> w"
      unfolding parts_def using Number_part_nonneg [OF nh] by blast
    have sub: "\<And>i j w. i < length parts \<Longrightarrow> CHR ''/'' \<in> set (parts ! i) \<Longrightarrow> j < 2 \<Longrightarrow>
        Number (split_on CHR ''/'' (parts ! i) ! j) = Some w \<Longrightarrow> 0 \<le> w"
    proof -
      fix i j w
      assume i: "i < length parts" and sl: "CHR ''/'' \<in> set (parts ! i)" and j: "j < 2"
        and n: "Number (split_on CHR ''/'' (parts ! i) ! j) = Some w"
      have "CHR ''-'' \<notin> set (parts ! i)"
        using nh split_on_nth [of i "CHR '' ''" s] i unfolding parts_def by blast
      moreover have "j < length (split_on CHR ''/'' (parts ! i))"
        using split_on_two [OF sl] j by simp
      ultimately show "0 \<le> w" using Number_part_nonneg n by blast
    qed
    have whole: "\<And>j w. CHR ''/'' \<in> set s \<Longrightarrow> j < 2 \<Longrightarrow>
        Number (split_on CHR ''/'' s ! j) = Some w \<Longrightarrow> 0 \<le> w"
    proof -
      fix j w
      assume sl: "CHR ''/'' \<in> set s" and j: "j < 2"
        and n: "Number (split_on CHR ''/'' s ! j) = Some w"
      have "j < length (split_on CHR ''/'' s)"
        using split_on_two [OF sl] j by simp
      then show "0 \<le> w" using Number_part_nonneg [OF nh] n by blast
    qed
    from res have r: "(if trim str = [] then None
        else if length parts = 2 \<and> CHR ''/'' \<in> set (parts ! 1) then
             (case (Number (parts ! 0), Number (split_on CHR ''/'' (parts ! 1) ! 0),
                    Number (split_on CHR ''/'' (parts ! 1) ! 1)) of
                (Some whole, Some n, Some d) \<Rightarrow> if d = 0 then None else Some (whole + n / d)
              | _ \<Rightarrow> None)
           else if length parts = 1 \<and> CHR ''/'' \<in> set s then
             (case (Number (split_on CHR ''/'' s ! 0), Number (split_on CHR ''/'' s ! 1)) of
                (Some n, Some d) \<Rightarrow> if d = 0 then None else Some (n / d)
              | _ \<Rightarrow> None)
           else Number s) = Some v"
      unfolding parseInches_def Let_def parts_def s_def by simp
    show "0 \<le> v"
    proof (cases "length parts = 2 \<and> CHR ''/'' \<in> set (parts ! 1)")
      case True
      with r obtain whole n d where
        "Number (parts ! 0) = Some whole"
        "Number (split_on CHR ''/'' (parts ! 1) ! 0) = Some n"
        "Number (split_on CHR ''/'' (parts ! 1) ! 1) = Some d"
        "v = whole + n / d"
        by (auto split: if_splits option.splits)
      moreover from this True have "0 \<le> whole" "0 \<le> n" "0 \<le> d"
        using part [of 0 whole] sub [of 1 0 n] sub [of 1 1 d] by auto
      ultimately show ?thesis by simp
    next
      case False
      note nomixed = this
      show ?thesis
      proof (cases "length parts = 1 \<and> CHR ''/'' \<in> set s")
        case True
        with r nomixed obtain n d where
          "Number (split_on CHR ''/'' s ! 0) = Some n"
          "Number (split_on CHR ''/'' s ! 1) = Some d"
          "v = n / d"
          by (auto split: if_splits option.splits)
        moreover from this True have "0 \<le> n" "0 \<le> d"
          using whole [of 0 n] whole [of 1 d] by auto
        ultimately show ?thesis by simp
      next
        case False
        with r nomixed have "Number s = Some v" by (auto split: if_splits)
        then show ?thesis using Number_nonneg [OF nh] by blast
      qed
    qed
  qed
next
  show "parseInches ''-5'' = Some 5"
    by (simp add: parse_eval)
qed

theorem parseInches_never_negative_witness:
  "parseInches ''1-1/2'' = Some (3 / 2) \<and> (0::real) \<le> 3 / 2"
proof -
  have e: "parseInches ''1-1/2'' = Some (3 / 2)"
    by (simp add: parse_eval)
  from parseInches_never_negative [of "''1-1/2''" "3 / 2"] e show ?thesis by simp
qed

subsection \<open>A lone hyphen\<close>

text \<open>
  C3. The parser is to fail on the text \<open>-\<close>. The firetube parser does. The parser of
  the ellipse, flange and jumper generators turns the hyphen into a space, and \<open>Number\<close> of
  a blank text is 0: it returns 0. On the other three texts both parsers return what the
  specification gives.
\<close>

theorem parseInches_lone_hyphen:
  "parseInches ''-'' = Some 0 \<and>
   parseInches_firetube ''-'' = Inl (InvalidNumber ''-'') \<and>
   parseInches ''1 1/2'' = Some (3 / 2) \<and> parseInches_firetube ''1 1/2'' = Inr (Fin (3 / 2)) \<and>
   parseInches ''3/4'' = Some (3 / 4) \<and> parseInches_firetube ''3/4'' = Inr (Fin (3 / 4)) \<and>
   parseInches ''1/0'' = None \<and> parseInches_firetube ''1/0'' = Inl (InvalidFraction ''1/0'')"
  by (simp add: parse_eval parseInches_firetube_def match_mixed_def match_frac_def parseInt_def
      to_num_def)

subsection \<open>The obround perimeter and the holes on it\<close>

lemma js_rem_self: "b \<noteq> 0 \<Longrightarrow> js_rem b b = 0"
  by (simp add: js_rem_def js_trunc_def)

lemma js_rem_zero: "js_rem 0 b = 0"
  by (simp add: js_rem_def js_trunc_def)

lemma obroundPerimeter_eq: "obroundPerimeter L W = 2 * (L - W) + pi * W"
  by (simp add: obroundPerimeter_def Let_def)

lemma obroundPerimeter_pos: "0 < W \<Longrightarrow> W \<le> L \<Longrightarrow> 0 < obroundPerimeter L W"
proof -
  assume "0 < W" "W \<le> L"
  then have "0 < pi * W" "0 \<le> 2 * (L - W)" by simp_all
  then show ?thesis unfolding obroundPerimeter_eq by linarith
qed

lemma perimeterPoint_cong:
  assumes "js_rem (js_rem s (2 * (L - W) + 2 * pi * (W / 2)) + (2 * (L - W) + 2 * pi * (W / 2)))
             (2 * (L - W) + 2 * pi * (W / 2))
           = js_rem (js_rem s' (2 * (L - W) + 2 * pi * (W / 2)) + (2 * (L - W) + 2 * pi * (W / 2)))
             (2 * (L - W) + 2 * pi * (W / 2))"
  shows "perimeterPointObround L W s = perimeterPointObround L W s'"
  unfolding perimeterPointObround_def Let_def assms ..

lemma js_rem_wrap_zero: "T \<noteq> 0 \<Longrightarrow> js_rem (js_rem 0 T + T) T = 0"
  by (simp add: js_rem_self js_rem_zero)

lemma js_rem_wrap_self: "T \<noteq> 0 \<Longrightarrow> js_rem (js_rem T T + T) T = 0"
  by (simp add: js_rem_self)

lemma js_rem_small:
  assumes "0 \<le> s" and "s < T"
  shows "js_rem s T = s"
proof -
  have T: "0 < T" using assms by linarith
  have "0 \<le> s / T" "s / T < 1" using assms T by simp_all
  then have "\<lfloor>s / T\<rfloor> = 0" by linarith
  then show ?thesis
    using \<open>0 \<le> s / T\<close> by (simp add: js_rem_def js_trunc_def)
qed

lemma js_rem_next:
  assumes "0 \<le> s" and "s < T"
  shows "js_rem (s + T) T = s"
proof -
  have T: "0 < T" using assms by linarith
  have e: "(s + T) / T = s / T + 1" using T by (simp add: field_simps)
  have "0 \<le> s / T" "s / T < 1" using assms T by simp_all
  then have "\<lfloor>s / T + 1\<rfloor> = 1" by linarith
  then show ?thesis
    using \<open>0 \<le> s / T\<close> unfolding js_rem_def js_trunc_def e by simp
qed

lemma js_rem_wrap_small:
  assumes "0 \<le> s" and "s < T"
  shows "js_rem (js_rem s T + T) T = s"
  using assms by (simp add: js_rem_small js_rem_next)

text \<open>The angles and the interpolation of the script, in terms of the arc length.\<close>

lemma quarter_angle: "r \<noteq> 0 \<Longrightarrow> (0 + 90 * (d / ((pi * r) / 2))) * pi / 180 = d / r"
  by (simp add: field_simps)

lemma semi_angle: "r \<noteq> 0 \<Longrightarrow> (90 + 180 * (d / (pi * r))) * pi / 180 = pi / 2 + d / r"
  by (simp add: field_simps)

lemma last_angle:
  "r \<noteq> 0 \<Longrightarrow> (270 + 90 * (d / ((pi * r) / 2))) * pi / 180 = 3 * pi / 2 + d / r"
  by (simp add: field_simps)

lemma top_straight: "(st::real) \<noteq> 0 \<Longrightarrow> st / 2 + (- 2 * (st / 2) * (d / st)) = st / 2 - d"
  by (simp add: field_simps)

lemma bottom_straight: "(st::real) \<noteq> 0 \<Longrightarrow> - (st / 2) + (2 * (st / 2) * (d / st)) = - (st / 2) + d"
  by (simp add: field_simps)

text \<open>
  On an obround with a positive width, \<open>perimeterPointObround\<close> returns the point of the
  outline at the arc length it is given.
\<close>

lemma perimeterPoint_refines:
  assumes W: "0 < W" and LW: "W \<le> L" and s0: "0 \<le> s" and sP: "s < obroundPerimeter L W"
  shows "perimeterPointObround L W s = Some (obround_point L W s)"
proof -
  define T where "T = 2 * (L - W) + 2 * pi * (W / 2)"
  have PT: "obroundPerimeter L W = T"
    by (simp add: obroundPerimeter_def Let_def T_def)
  have T0: "T \<noteq> 0" using s0 sP PT by linarith
  have d0: "js_rem (js_rem s T + T) T = s"
    using s0 sP unfolding PT by (rule js_rem_wrap_small)
  have r: "W / 2 \<noteq> 0" using W by simp
  have q: "pi * (W / 2) / 2 \<noteq> 0" using W by simp
  consider (a) "s \<le> pi * (W / 2) / 2"
    | (b) "\<not> s \<le> pi * (W / 2) / 2" "s - pi * (W / 2) / 2 \<le> L - W"
    | (c) "\<not> s \<le> pi * (W / 2) / 2" "\<not> s - pi * (W / 2) / 2 \<le> L - W"
          "s - pi * (W / 2) / 2 - (L - W) \<le> pi * (W / 2)"
    | (d) "\<not> s \<le> pi * (W / 2) / 2" "\<not> s - pi * (W / 2) / 2 \<le> L - W"
          "\<not> s - pi * (W / 2) / 2 - (L - W) \<le> pi * (W / 2)"
          "s - pi * (W / 2) / 2 - (L - W) - pi * (W / 2) \<le> L - W"
    | (e) "\<not> s \<le> pi * (W / 2) / 2" "\<not> s - pi * (W / 2) / 2 \<le> L - W"
          "\<not> s - pi * (W / 2) / 2 - (L - W) \<le> pi * (W / 2)"
          "\<not> s - pi * (W / 2) / 2 - (L - W) - pi * (W / 2) \<le> L - W"
    by blast
  then show ?thesis
  proof cases
    case a
    show ?thesis
      unfolding perimeterPointObround_def obround_point_def Let_def T_def [symmetric] d0
      by (simp only: a T0 q if_True if_False quarter_angle [OF r])
  next
    case b
    then have st: "L - W \<noteq> 0" by linarith
    show ?thesis
      unfolding perimeterPointObround_def obround_point_def Let_def T_def [symmetric] d0
      by (simp only: b T0 q if_True if_False top_straight [OF st])
  next
    case c
    show ?thesis
      unfolding perimeterPointObround_def obround_point_def Let_def T_def [symmetric] d0
      by (simp only: c T0 q if_True if_False semi_angle [OF r])
  next
    case d
    then have st: "L - W \<noteq> 0" by linarith
    show ?thesis
      unfolding perimeterPointObround_def obround_point_def Let_def T_def [symmetric] d0
      by (simp only: d T0 q if_True if_False bottom_straight [OF st])
  next
    case e
    show ?thesis
      unfolding perimeterPointObround_def obround_point_def Let_def T_def [symmetric] d0
      by (simp only: e T0 q if_True if_False last_angle [OF r])
  qed
qed

text \<open>
  With a width of 0 the point at the arc length 0 is not a point: the first branch
  divides 0 by the quarter arc length 0.
\<close>

lemma perimeterPoint_flat: "perimeterPointObround L 0 0 = None"
  by (simp add: perimeterPointObround_def Let_def js_rem_def js_trunc_def)

text \<open>The point of the outline at every arc length is on the outline.\<close>

lemma obround_point_on_obround:
  assumes W: "0 < W" and LW: "W \<le> L" and s0: "0 \<le> s" and sP: "s \<le> obroundPerimeter L W"
  shows "on_obround L W (obround_point L W s)"
proof -
  define r where "r = W / 2"
  define st where "st = L - W"
  define h where "h = st / 2"
  have r: "0 < r" and h: "0 \<le> h" using W LW by (simp_all add: r_def h_def st_def)
  have P: "obroundPerimeter L W = 2 * st + 2 * pi * r"
    by (simp add: obroundPerimeter_def Let_def r_def st_def)
  have circ: "(r * cos a)\<^sup>2 + (r * sin a)\<^sup>2 = r\<^sup>2" for a
  proof -
    have "(r * cos a)\<^sup>2 + (r * sin a)\<^sup>2 = r\<^sup>2 * ((sin a)\<^sup>2 + (cos a)\<^sup>2)"
      by (simp only: power_mult_distrib distrib_left add.commute)
    then show ?thesis by simp
  qed
  have goal: "\<bar>x\<bar> \<le> h \<and> \<bar>y\<bar> = r \<or> h \<le> \<bar>x\<bar> \<and> (\<bar>x\<bar> - h)\<^sup>2 + y\<^sup>2 = r\<^sup>2
      \<Longrightarrow> on_obround L W (x, y)" for x y
    by (simp add: on_obround_def Let_def r_def h_def st_def)
  consider (a) "s \<le> pi * r / 2"
    | (b) "\<not> s \<le> pi * r / 2" "s - pi * r / 2 \<le> st"
    | (c) "\<not> s \<le> pi * r / 2" "\<not> s - pi * r / 2 \<le> st"
          "s - pi * r / 2 - st \<le> pi * r"
    | (d) "\<not> s \<le> pi * r / 2" "\<not> s - pi * r / 2 \<le> st"
          "\<not> s - pi * r / 2 - st \<le> pi * r"
          "s - pi * r / 2 - st - pi * r \<le> st"
    | (e) "\<not> s \<le> pi * r / 2" "\<not> s - pi * r / 2 \<le> st"
          "\<not> s - pi * r / 2 - st \<le> pi * r"
          "\<not> s - pi * r / 2 - st - pi * r \<le> st"
    by blast
  then show ?thesis
  proof cases
    case a
    have "0 \<le> s / r" "s / r \<le> pi / 2"
      using s0 a r by (simp_all add: field_simps)
    then have c: "0 \<le> cos (s / r)"
      by (intro cos_ge_zero) linarith+
    then have n: "0 \<le> r * cos (s / r)" using r by simp
    then have x: "\<bar>h + r * cos (s / r)\<bar> = h + r * cos (s / r)" using h by linarith
    have p: "obround_point L W s = (h + r * cos (s / r), r * sin (s / r))"
      unfolding obround_point_def Let_def r_def [symmetric] st_def [symmetric] h_def [symmetric]
      by (simp only: a if_True)
    show ?thesis
      unfolding p
    proof (rule goal, rule disjI2, rule conjI)
      show "h \<le> \<bar>h + r * cos (s / r)\<bar>" unfolding x using n by simp
      show "(\<bar>h + r * cos (s / r)\<bar> - h)\<^sup>2 + (r * sin (s / r))\<^sup>2 = r\<^sup>2"
        unfolding x by (simp add: circ)
    qed
  next
    case b
    have p: "obround_point L W s = (h - (s - pi * r / 2), r)"
      unfolding obround_point_def Let_def r_def [symmetric] st_def [symmetric] h_def [symmetric]
      by (simp only: b if_True if_False)
    have "\<bar>h - (s - pi * r / 2)\<bar> \<le> h" using b unfolding h_def by linarith
    then show ?thesis
      unfolding p using r by (intro goal) simp
  next
    case c
    define u where "u = (s - pi * r / 2 - st) / r"
    have "0 \<le> s - pi * r / 2 - st" using c by linarith
    then have u: "0 \<le> u" "u \<le> pi"
      using c(3) r by (simp_all add: u_def field_simps)
    have p: "obround_point L W s = (- h + r * cos (pi / 2 + u), r * sin (pi / 2 + u))"
      unfolding obround_point_def Let_def r_def [symmetric] st_def [symmetric] h_def [symmetric]
        u_def
      by (simp only: c if_True if_False)
    have cs: "cos (pi / 2 + u) = - sin u"
      by (simp add: cos_add)
    have "0 \<le> sin u" using u by (intro sin_ge_zero)
    then have n: "0 \<le> r * sin u" using r by simp
    then have x: "\<bar>- h + r * cos (pi / 2 + u)\<bar> = h + r * sin u"
      unfolding cs using h by simp
    have e: "(h + r * sin u - h)\<^sup>2 = (r * cos (pi / 2 + u))\<^sup>2"
      unfolding cs by simp
    show ?thesis
      unfolding p
    proof (rule goal, rule disjI2, rule conjI)
      show "h \<le> \<bar>- h + r * cos (pi / 2 + u)\<bar>" unfolding x using n by simp
      show "(\<bar>- h + r * cos (pi / 2 + u)\<bar> - h)\<^sup>2 + (r * sin (pi / 2 + u))\<^sup>2 = r\<^sup>2"
        unfolding x e by (rule circ)
    qed
  next
    case d
    have p: "obround_point L W s = (- h + (s - pi * r / 2 - st - pi * r), - r)"
      unfolding obround_point_def Let_def r_def [symmetric] st_def [symmetric] h_def [symmetric]
      by (simp only: d if_True if_False)
    have "\<bar>- h + (s - pi * r / 2 - st - pi * r)\<bar> \<le> h" using d unfolding h_def by linarith
    then show ?thesis
      unfolding p using r by (intro goal) simp
  next
    case e
    define u where "u = (s - pi * r / 2 - st - pi * r - st) / r"
    have "0 \<le> s - pi * r / 2 - st - pi * r - st"
      "s - pi * r / 2 - st - pi * r - st \<le> (pi / 2) * r"
      using e sP unfolding P by linarith+
    then have u: "0 \<le> u" "u \<le> pi / 2"
      using r by (simp_all add: u_def field_simps)
    have p: "obround_point L W s = (h + r * cos (3 * pi / 2 + u), r * sin (3 * pi / 2 + u))"
      unfolding obround_point_def Let_def r_def [symmetric] st_def [symmetric] h_def [symmetric]
        u_def
      by (simp only: e if_True if_False)
    have "3 * pi / 2 + u = (u + pi / 2) + pi" by simp
    then have "cos (3 * pi / 2 + u) = cos ((u + pi / 2) + pi)" by (rule arg_cong)
    also have "\<dots> = - cos (u + pi / 2)" by (rule cos_periodic_pi)
    also have "\<dots> = sin u" by (simp add: cos_add)
    finally have cs: "cos (3 * pi / 2 + u) = sin u" .
    have "0 \<le> sin u" using u by (intro sin_ge_zero) linarith+
    then have n: "0 \<le> r * sin u" using r by simp
    then have x: "\<bar>h + r * cos (3 * pi / 2 + u)\<bar> = h + r * sin u"
      unfolding cs using h by simp
    have e': "(h + r * sin u - h)\<^sup>2 = (r * cos (3 * pi / 2 + u))\<^sup>2"
      unfolding cs by simp
    show ?thesis
      unfolding p
    proof (rule goal, rule disjI2, rule conjI)
      show "h \<le> \<bar>h + r * cos (3 * pi / 2 + u)\<bar>" unfolding x using n by simp
      show "(\<bar>h + r * cos (3 * pi / 2 + u)\<bar> - h)\<^sup>2 + (r * sin (3 * pi / 2 + u))\<^sup>2 = r\<^sup>2"
        unfolding x e' by (rule circ)
    qed
  qed
qed

lemma obround_point_start: "0 < W \<Longrightarrow> obround_point L W 0 = (L / 2, 0)"
  by (simp add: obround_point_def Let_def field_simps)

text \<open>
  C9. For every obround with \<open>L \<ge> W > 0\<close> the arc-length parameterisation closes up:
  the point at arc length 0 is the point at arc length \<open>P(L, W)\<close>, where the perimeter is
  \<open>P(L, W) = 2 (L - W) + pi W\<close>. The two points are equal, not only close: both are the
  point \<open>(L / 2, 0)\<close>.
\<close>

theorem obround_closure:
  assumes "0 < W" and "W \<le> L"
  shows "perimeterPointObround L W 0 = perimeterPointObround L W (obroundPerimeter L W) \<and>
         obroundPerimeter L W = 2 * (L - W) + pi * W \<and>
         perimeterPointObround L W 0 = Some (L / 2, 0)"
proof -
  define T where "T = 2 * (L - W) + 2 * pi * (W / 2)"
  have PT: "obroundPerimeter L W = T"
    by (simp add: obroundPerimeter_def Let_def T_def)
  have "T \<noteq> 0"
    using obroundPerimeter_pos [OF assms] PT by simp
  then have "js_rem (js_rem 0 T + T) T = js_rem (js_rem T T + T) T"
    by (simp add: js_rem_wrap_zero js_rem_wrap_self)
  then have "perimeterPointObround L W 0 = perimeterPointObround L W T"
    unfolding T_def by (rule perimeterPoint_cong)
  moreover have "perimeterPointObround L W 0 = Some (L / 2, 0)"
    using perimeterPoint_refines [OF assms order_refl obroundPerimeter_pos [OF assms]]
    by (simp add: obround_point_start [OF assms(1)])
  ultimately show ?thesis
    unfolding PT by (simp add: T_def)
qed

theorem obround_closure_witness:
  "perimeterPointObround 10 4 0 = perimeterPointObround 10 4 (obroundPerimeter 10 4) \<and>
   obroundPerimeter 10 4 = 2 * (10 - 4) + pi * 4 \<and>
   perimeterPointObround 10 4 0 = Some (10 / 2, 0)"
  by (rule obround_closure [of 4 10]) simp_all

lemma hole_loop_eq:
  "hole_loop inputs c2c shift i acc =
     acc @ map (\<lambda>k. perimeterPointObround (bcLong inputs) (bcShort inputs) (of_int k * c2c + shift))
             [i .. holeCount inputs - 1]"
proof (induction inputs c2c shift i acc rule: hole_loop.induct)
  case (1 inputs c2c shift i centers)
  show ?case
  proof (cases "i < holeCount inputs")
    case True
    then have "[i .. holeCount inputs - 1] = i # [i + 1 .. holeCount inputs - 1]"
      by (simp add: upto_rec1)
    with True "1.IH" show ?thesis
      by (subst hole_loop.simps) simp
  next
    case False
    then show ?thesis
      by (subst hole_loop.simps) simp
  qed
qed

lemma upto_nth: "i < nat (n :: int) \<Longrightarrow> [0 .. n - 1] ! i = int i"
  by (simp add: nth_upto)

lemma hole_centers_length:
  "0 < holeCount inputs \<Longrightarrow> length (fst (computeHoleCenters inputs)) = nat (holeCount inputs)"
  by (simp add: computeHoleCenters_def Let_def hole_loop_eq)

lemma hole_centers_nth:
  assumes "i < nat (holeCount inputs)"
  shows "fst (computeHoleCenters inputs) ! i =
     perimeterPointObround (bcLong inputs) (bcShort inputs)
       (real i * (obroundPerimeter (bcLong inputs) (bcShort inputs) / of_int (holeCount inputs))
        + (if centerMode inputs = ''off''
           then (obroundPerimeter (bcLong inputs) (bcShort inputs) / of_int (holeCount inputs)) / 2
           else 0))"
proof -
  have "[0 .. holeCount inputs - 1] ! i = int i" using assms by (rule upto_nth)
  moreover have "i < length [0 .. holeCount inputs - 1]" using assms by simp
  ultimately show ?thesis
    by (simp add: computeHoleCenters_def Let_def hole_loop_eq)
qed

lemma hole_arc_length_range:
  assumes N: "0 < (N :: int)" and P: "0 < (P :: real)" and i: "i < nat N"
    and sh: "shift = 0 \<or> shift = (P / of_int N) / 2"
  shows "0 \<le> real i * (P / of_int N) + shift \<and> real i * (P / of_int N) + shift < P"
proof -
  define c where "c = P / of_int N"
  have c: "0 < c" unfolding c_def using N P by simp
  have PN: "P = of_int N * c"
    unfolding c_def using N by simp
  have "real i + 1 \<le> of_int N"
    using i N by linarith
  then have "(real i + 1) * c \<le> of_int N * c"
    using c by (simp add: mult_right_mono)
  moreover have "shift \<le> c / 2" "0 \<le> shift"
    using sh c unfolding c_def [symmetric] by auto
  moreover have "real i * c + c / 2 < (real i + 1) * c"
    using c by (simp add: algebra_simps)
  moreover have "0 \<le> real i * c" using c by simp
  ultimately show ?thesis unfolding c_def [symmetric] PN [symmetric] by linarith
qed

lemmas ft_parse_eval = parseInches_firetube_def match_mixed_def match_frac_def Number_def
  trim_def is_space_def is_digit_def unsigned_decimal_def exponent_part_def digits_val_def
  radix_val_def radix_digit_val_def finite_or_NaN_def scale10_def Let_def parseInt_def
  to_num_def

lemmas ft_steps = computeInputs_def requireAllMandatory_def requireFilled_def
  applyCrossSectionToIDIfPresent_def err_bind_def check_def trim_def is_space_def Let_def
  obroundPerimeter_num_def js_sub_def finite_inputs_def

lemma ft_flat_texts:
  "parseInches_firetube ''20'' = Inr (Fin 20)" "parseInches_firetube ''12'' = Inr (Fin 12)"
  "parseInches_firetube ''-4'' = Inr (Fin (- 4))" "parseInches_firetube ''16'' = Inr (Fin 16)"
  "parseInches_firetube ''0'' = Inr (Fin 0)" "parseInches_firetube ''1'' = Inr (Fin 1)"
  "parseInt ''8'' = Fin 8"
  by (simp_all add: ft_parse_eval)

lemma ft_flat_inputs:
  "computeInputs ft_flat = Inr \<lparr>odLong = Fin 20, odShort = Fin 12, idLong = Fin 12,
     idShort = Fin (- 4), bcLong = Fin 16, bcShort = Fin 0, holeCount = Fin 8, holeDia = Fin 1,
     centerMode = ''on''\<rparr>"
  unfolding ft_flat_def by (simp add: ft_steps ft_flat_texts)

lemma ft_flat_validated:
  "runValidation ft_flat =
     Inr (Validated
       \<lparr>odLong = 20, odShort = 12, idLong = 12, idShort = - 4, bcLong = 16, bcShort = 0,
        holeCount = 8, holeDia = 1, centerMode = ''on''\<rparr>
       (fst (computeHoleCenters
          \<lparr>odLong = 20, odShort = 12, idLong = 12, idShort = - 4, bcLong = 16, bcShort = 0,
           holeCount = 8, holeDia = 1, centerMode = ''on''\<rparr>))
       (evaluateClearances (clearanceBreakdownBySides
          \<lparr>odLong = 20, odShort = 12, idLong = 12, idShort = - 4, bcLong = 16, bcShort = 0,
           holeCount = 8, holeDia = 1, centerMode = ''on''\<rparr>)))"
  by (simp add: runValidation_def ft_flat_inputs err_bind_def finite_inputs_def Let_def split_beta)

lemma ft_flat_clearances:
  "evaluateClearances (clearanceBreakdownBySides
     \<lparr>odLong = 20, odShort = 12, idLong = 12, idShort = - 4, bcLong = 16, bcShort = 0,
      holeCount = 8, holeDia = 1, centerMode = ''on''\<rparr>) = \<lparr>warnings = [], errors = []\<rparr>"
  by (simp add: evaluateClearances_def clearanceBreakdownBySides_def rule_def Let_def)

text \<open>
  C8. On a bolt circle with a positive width, \<open>computeHoleCenters\<close> places the \<open>N\<close> holes
  as the specification says: hole \<open>i\<close> is the point of the obround outline at the arc
  length \<open>s_i = i (P / N) + shift\<close>, with the shift half a spacing in the off-centre mode
  and 0 otherwise. Every \<open>s_i\<close> lies in \<open>[0, P)\<close>, so these are the arc lengths themselves,
  each a spacing \<open>P / N\<close> after the one before, and the last a spacing before the first.

  \<open>computeInputs\<close> does not ask for a positive width. With a bolt circle of width 0, which
  it accepts, the first hole of the on-centre pattern is \<open>[NaN, NaN]\<close>: the form
  \<open>ft_flat\<close> is validated with no clearance message, and its first hole is no point.
\<close>

theorem hole_centers_evenly_spaced:
  assumes "0 < holeCount inputs" and "0 < bcShort inputs" and "bcShort inputs \<le> bcLong inputs"
  shows "length (fst (computeHoleCenters inputs)) = nat (holeCount inputs) \<and>
         (\<forall>i < nat (holeCount inputs).
            0 \<le> real i * (obroundPerimeter (bcLong inputs) (bcShort inputs)
                            / of_int (holeCount inputs))
                + (if centerMode inputs = ''off''
                   then (obroundPerimeter (bcLong inputs) (bcShort inputs)
                         / of_int (holeCount inputs)) / 2
                   else 0) \<and>
            real i * (obroundPerimeter (bcLong inputs) (bcShort inputs)
                      / of_int (holeCount inputs))
              + (if centerMode inputs = ''off''
                 then (obroundPerimeter (bcLong inputs) (bcShort inputs)
                       / of_int (holeCount inputs)) / 2
                 else 0)
              < obroundPerimeter (bcLong inputs) (bcShort inputs) \<and>
            fst (computeHoleCenters inputs) ! i =
              Some (obround_point (bcLong inputs) (bcShort inputs)
                (real i * (obroundPerimeter (bcLong inputs) (bcShort inputs)
                           / of_int (holeCount inputs))
                 + (if centerMode inputs = ''off''
                    then (obroundPerimeter (bcLong inputs) (bcShort inputs)
                          / of_int (holeCount inputs)) / 2
                    else 0))) \<and>
            on_obround (bcLong inputs) (bcShort inputs)
              (obround_point (bcLong inputs) (bcShort inputs)
                (real i * (obroundPerimeter (bcLong inputs) (bcShort inputs)
                           / of_int (holeCount inputs))
                 + (if centerMode inputs = ''off''
                    then (obroundPerimeter (bcLong inputs) (bcShort inputs)
                          / of_int (holeCount inputs)) / 2
                    else 0)))) \<and>
         (\<exists>flat centers evals.
            runValidation ft_flat = Inr (Validated flat centers evals) \<and>
            bcShort flat = 0 \<and> warnings evals = [] \<and> errors evals = [] \<and>
            length centers = 8 \<and> centers ! 0 = None)"
proof (intro conjI allI impI)
  show "length (fst (computeHoleCenters inputs)) = nat (holeCount inputs)"
    using assms(1) by (rule hole_centers_length)
next
  fix i assume i: "i < nat (holeCount inputs)"
  define P where "P = obroundPerimeter (bcLong inputs) (bcShort inputs)"
  define s where "s = real i * (P / of_int (holeCount inputs))
      + (if centerMode inputs = ''off'' then (P / of_int (holeCount inputs)) / 2 else 0)"
  have P: "0 < P"
    unfolding P_def using assms(2,3) by (rule obroundPerimeter_pos)
  have range: "0 \<le> s \<and> s < P"
    unfolding s_def by (rule hole_arc_length_range [OF assms(1) P i]) simp
  show "0 \<le> real i * (obroundPerimeter (bcLong inputs) (bcShort inputs)
                          / of_int (holeCount inputs))
      + (if centerMode inputs = ''off''
         then (obroundPerimeter (bcLong inputs) (bcShort inputs) / of_int (holeCount inputs)) / 2
         else 0)"
    using range unfolding s_def P_def by (rule conjunct1)
  show "real i * (obroundPerimeter (bcLong inputs) (bcShort inputs) / of_int (holeCount inputs))
      + (if centerMode inputs = ''off''
         then (obroundPerimeter (bcLong inputs) (bcShort inputs) / of_int (holeCount inputs)) / 2
         else 0)
      < obroundPerimeter (bcLong inputs) (bcShort inputs)"
    using range unfolding s_def P_def by (rule conjunct2)
  have "fst (computeHoleCenters inputs) ! i =
      perimeterPointObround (bcLong inputs) (bcShort inputs) s"
    unfolding s_def P_def using i by (rule hole_centers_nth)
  also have "\<dots> = Some (obround_point (bcLong inputs) (bcShort inputs) s)"
    using range unfolding P_def by (intro perimeterPoint_refines assms(2,3)) simp_all
  finally show "fst (computeHoleCenters inputs) ! i =
      Some (obround_point (bcLong inputs) (bcShort inputs)
        (real i * (obroundPerimeter (bcLong inputs) (bcShort inputs)
                   / of_int (holeCount inputs))
         + (if centerMode inputs = ''off''
            then (obroundPerimeter (bcLong inputs) (bcShort inputs)
                  / of_int (holeCount inputs)) / 2
            else 0)))"
    unfolding s_def P_def .
  have "on_obround (bcLong inputs) (bcShort inputs)
      (obround_point (bcLong inputs) (bcShort inputs) s)"
    using range unfolding P_def by (intro obround_point_on_obround assms(2,3)) simp_all
  then show "on_obround (bcLong inputs) (bcShort inputs)
      (obround_point (bcLong inputs) (bcShort inputs)
        (real i * (obroundPerimeter (bcLong inputs) (bcShort inputs)
                   / of_int (holeCount inputs))
         + (if centerMode inputs = ''off''
            then (obroundPerimeter (bcLong inputs) (bcShort inputs)
                  / of_int (holeCount inputs)) / 2
            else 0)))"
    unfolding s_def P_def .
next
  let ?flat = "\<lparr>odLong = 20, odShort = 12, idLong = 12, idShort = - 4, bcLong = 16,
      bcShort = 0, holeCount = 8, holeDia = 1, centerMode = ''on''\<rparr> :: ft_inputs"
  have l: "length (fst (computeHoleCenters ?flat)) = 8"
    using hole_centers_length [of ?flat] by simp
  have "fst (computeHoleCenters ?flat) ! 0 = perimeterPointObround 16 0 0"
    using hole_centers_nth [of 0 ?flat] by simp
  then have n: "fst (computeHoleCenters ?flat) ! 0 = None"
    by (simp only: perimeterPoint_flat)
  show "\<exists>flat centers evals.
      runValidation ft_flat = Inr (Validated flat centers evals) \<and>
      bcShort flat = 0 \<and> warnings evals = [] \<and> errors evals = [] \<and>
      length centers = 8 \<and> centers ! 0 = None"
    using l n by (simp add: ft_flat_validated ft_flat_clearances)
qed

theorem hole_centers_evenly_spaced_witness:
  "length (fst (computeHoleCenters \<lparr>odLong = 20, odShort = 12, idLong = 12, idShort = 4,
      bcLong = 16, bcShort = 8, holeCount = 8, holeDia = 1, centerMode = ''off''\<rparr>)) = 8 \<and>
   fst (computeHoleCenters \<lparr>odLong = 20, odShort = 12, idLong = 12, idShort = 4,
      bcLong = 16, bcShort = 8, holeCount = 8, holeDia = 1, centerMode = ''off''\<rparr>) ! 3 =
     Some (obround_point 16 8 (3 * (obroundPerimeter 16 8 / 8) + obroundPerimeter 16 8 / 8 / 2)) \<and>
   3 * (obroundPerimeter 16 8 / 8) + obroundPerimeter 16 8 / 8 / 2 < obroundPerimeter 16 8 \<and>
   on_obround 16 8
     (obround_point 16 8 (3 * (obroundPerimeter 16 8 / 8) + obroundPerimeter 16 8 / 8 / 2))"
proof -
  let ?i = "\<lparr>odLong = 20, odShort = 12, idLong = 12, idShort = 4,
      bcLong = 16, bcShort = 8, holeCount = 8, holeDia = 1, centerMode = ''off''\<rparr> :: ft_inputs"
  let ?s = "real 3 * (obroundPerimeter (bcLong ?i) (bcShort ?i) / of_int (holeCount ?i))
      + (if centerMode ?i = ''off''
         then (obroundPerimeter (bcLong ?i) (bcShort ?i) / of_int (holeCount ?i)) / 2 else 0)"
  have pos: "0 < holeCount ?i" "0 < bcShort ?i" "bcShort ?i \<le> bcLong ?i" by simp_all
  have three: "(3::nat) < nat (holeCount ?i)" by simp
  from hole_centers_evenly_spaced [OF pos] three
  have "length (fst (computeHoleCenters ?i)) = nat (holeCount ?i)"
    and "fst (computeHoleCenters ?i) ! 3 = Some (obround_point (bcLong ?i) (bcShort ?i) ?s)"
    and "?s < obroundPerimeter (bcLong ?i) (bcShort ?i)"
    and "on_obround (bcLong ?i) (bcShort ?i) (obround_point (bcLong ?i) (bcShort ?i) ?s)"
    by blast+
  then show ?thesis by simp
qed
subsection \<open>Bolt holes that overlap\<close>

lemma err_bind_fails:
  "(\<And>x. m = Inr x \<Longrightarrow> \<exists>e. f x = Inl e) \<Longrightarrow> \<exists>e. err_bind m f = Inl e"
  by (cases m) (auto simp: err_bind_def)

lemma err_bind_InrD: "err_bind m g = Inr y \<Longrightarrow> \<exists>x. m = Inr x \<and> g x = Inr y"
  by (cases m) (auto simp: err_bind_def)

lemma check_InrD: "check c e = Inr u \<Longrightarrow> \<not> c"
  by (simp add: check_def split: if_splits)

lemma obroundPerimeter_num_Fin:
  "obroundPerimeter_num (Fin L) (Fin W) = Fin (obroundPerimeter L W)"
  by (simp add: obroundPerimeter_num_def obroundPerimeter_def js_sub_def Let_def)

text \<open>What \<open>computeInputs\<close> has checked when it returns.\<close>

lemma computeInputs_InrD:
  assumes "computeInputs f = Inr v"
  shows "\<exists>u written.
     requireAllMandatory f = Inr u \<and>
     applyCrossSectionToIDIfPresent f = Inr written \<and>
     parseInches_firetube (odLong_value f) = Inr (odLong v) \<and>
     parseInches_firetube (odShort_value f) = Inr (odShort v) \<and>
     (case written of Some (l, s) \<Rightarrow> parse_written l
      | None \<Rightarrow> parseInches_firetube (idLong_value f)) = Inr (idLong v) \<and>
     (case written of Some (l, s) \<Rightarrow> parse_written s
      | None \<Rightarrow> parseInches_firetube (idShort_value f)) = Inr (idShort v) \<and>
     parseInches_firetube (bcLong_value f) = Inr (bcLong v) \<and>
     parseInches_firetube (bcShort_value f) = Inr (bcShort v) \<and>
     parseInt (holeCount_value f) = holeCount v \<and>
     parseInches_firetube (holeDia_value f) = Inr (holeDia v) \<and>
     centerMode_value f = centerMode v \<and>
     \<not> js_lt (odLong v) (odShort v) \<and>
     \<not> js_lt (idLong v) (idShort v) \<and>
     \<not> js_lt (bcLong v) (bcShort v) \<and>
     \<not> js_ge (idLong v) (odLong v) \<and>
     \<not> js_ge (idShort v) (odShort v) \<and>
     \<not> js_gt (bcLong v) (odLong v) \<and>
     \<not> js_gt (bcShort v) (odShort v) \<and>
     js_gt (holeCount v) (Fin 0) \<and>
     js_gt (holeDia v) (Fin 0) \<and>
     \<not> js_le (js_div (obroundPerimeter_num (bcLong v) (bcShort v)) (holeCount v)) (holeDia v)"
  using assms unfolding computeInputs_def Let_def
  by (auto dest!: err_bind_InrD check_InrD)

lemma rounding_slack_nonneg: "0 \<le> rounding_slack xs"
proof -
  have "0 \<le> sum_list (map abs xs)" for xs :: "real list"
    by (induction xs) simp_all
  then show ?thesis by (simp add: rounding_slack_def)
qed

lemma computeInputs_overlap_fails:
  assumes "parseInches_firetube (bcLong_value f) = Inr (Fin L)"
    and "parseInches_firetube (bcShort_value f) = Inr (Fin W)"
    and "parseInt (holeCount_value f) = Fin N"
    and "parseInches_firetube (holeDia_value f) = Inr (Fin D)"
    and "obroundPerimeter L W / N \<le> D"
  shows "\<exists>e. computeInputs f = Inl e"
  unfolding computeInputs_def Let_def
  apply (intro err_bind_fails)
  apply (drule check_InrD)+
  using assms apply (auto simp: obroundPerimeter_num_Fin)
  done

lemma runValidation_fails: "computeInputs f = Inl e \<Longrightarrow> runValidation f = Inl e"
  by (simp add: runValidation_def err_bind_def)

lemma parse_nonblank: "parseInches_firetube s = Inr v \<Longrightarrow> trim s \<noteq> []"
  by (auto simp: parseInches_firetube_def Let_def)

lemma requireAllMandatory_holeDia:
  assumes "requireAllMandatory (f\<lparr>holeDia_value := h\<rparr>) = Inr u" and "trim (holeDia_value f) \<noteq> []"
  shows "requireAllMandatory f = Inr u"
  using assms unfolding requireAllMandatory_def requireFilled_def err_bind_def
  by (simp split: if_splits)

lemma applyCrossSection_holeDia:
  "applyCrossSectionToIDIfPresent (f\<lparr>holeDia_value := h\<rparr>) = applyCrossSectionToIDIfPresent f"
  by (simp add: applyCrossSectionToIDIfPresent_def Let_def cong: if_cong)

lemma spacing_positive: "js_gt h (Fin 0) \<Longrightarrow> \<not> js_le (Fin c) h \<Longrightarrow> 0 < c"
  by (cases h) auto

lemma computeInputs_overlap_reported:
  assumes ok: "computeInputs (f\<lparr>holeDia_value := h\<rparr>) = Inr v"
    and pL: "parseInches_firetube (bcLong_value f) = Inr (Fin L)"
    and pW: "parseInches_firetube (bcShort_value f) = Inr (Fin W)"
    and pN: "parseInt (holeCount_value f) = Fin N"
    and pD: "parseInches_firetube (holeDia_value f) = Inr (Fin D)"
    and le: "obroundPerimeter L W / N \<le> D"
  shows "computeInputs f = Inl BoltHolesOverlap"
proof -
  have nb: "trim (holeDia_value f) \<noteq> []"
    using pD by (rule parse_nonblank)
  let ?f = "f\<lparr>holeDia_value := h\<rparr>"
  from computeInputs_InrD [OF ok] obtain u written where
    1: "requireAllMandatory ?f = Inr u"
    and 2: "applyCrossSectionToIDIfPresent ?f = Inr written"
    and 3: "parseInches_firetube (odLong_value ?f) = Inr (odLong v)"
    and 4: "parseInches_firetube (odShort_value ?f) = Inr (odShort v)"
    and 5: "(case written of Some (l, s) \<Rightarrow> parse_written l
             | None \<Rightarrow> parseInches_firetube (idLong_value ?f)) = Inr (idLong v)"
    and 6: "(case written of Some (l, s) \<Rightarrow> parse_written s
             | None \<Rightarrow> parseInches_firetube (idShort_value ?f)) = Inr (idShort v)"
    and 7: "parseInches_firetube (bcLong_value ?f) = Inr (bcLong v)"
    and 8: "parseInches_firetube (bcShort_value ?f) = Inr (bcShort v)"
    and 9: "parseInt (holeCount_value ?f) = holeCount v"
    and c: "\<not> js_lt (odLong v) (odShort v)" "\<not> js_lt (idLong v) (idShort v)"
      "\<not> js_lt (bcLong v) (bcShort v)"
      "\<not> js_ge (idLong v) (odLong v)" "\<not> js_ge (idShort v) (odShort v)"
      "\<not> js_gt (bcLong v) (odLong v)" "\<not> js_gt (bcShort v) (odShort v)"
      "js_gt (holeCount v) (Fin 0)" "js_gt (holeDia v) (Fin 0)"
      "\<not> js_le (js_div (obroundPerimeter_num (bcLong v) (bcShort v)) (holeCount v)) (holeDia v)"
    by blast
  have v: "bcLong v = Fin L" "bcShort v = Fin W" "holeCount v = Fin N"
    using 7 8 9 pL pW pN by simp_all
  have m: "requireAllMandatory f = Inr u"
    using 1 nb by (rule requireAllMandatory_holeDia)
  have 2: "applyCrossSectionToIDIfPresent f = Inr written"
    using 2 by (simp only: applyCrossSection_holeDia)
  have 3: "parseInches_firetube (odLong_value f) = Inr (odLong v)"
    and 4: "parseInches_firetube (odShort_value f) = Inr (odShort v)"
    using 3 4 by simp_all
  have 5: "(case written of Some (l, s) \<Rightarrow> parse_written l
            | None \<Rightarrow> parseInches_firetube (idLong_value f)) = Inr (idLong v)"
    using 5 by (cases written) simp_all
  have 6: "(case written of Some (l, s) \<Rightarrow> parse_written s
            | None \<Rightarrow> parseInches_firetube (idShort_value f)) = Inr (idShort v)"
    using 6 by (cases written) simp_all
  have N: "0 < N" using c(8) by (simp add: v)
  then have "\<not> js_le (Fin (obroundPerimeter L W / N)) (holeDia v)"
    using c(10) by (simp add: v obroundPerimeter_num_Fin)
  with c(9) have "0 < obroundPerimeter L W / N" by (rule spacing_positive)
  with le have D: "0 < D" by linarith
  have c': "\<not> L < W" "\<not> js_gt (Fin L) (odLong v)" "\<not> js_gt (Fin W) (odShort v)"
    using c(3,6,7) by (simp_all add: v)
  show ?thesis
    unfolding computeInputs_def Let_def
    using c(1,2,4,5) c' N D le
    by (simp add: m 2 3 4 5 6 pL pW pN pD err_bind_def check_def obroundPerimeter_num_Fin)
qed

lemma ft_crowded_texts:
  "parseInches_firetube ''10'' = Inr (Fin 10)" "parseInches_firetube ''14'' = Inr (Fin 14)"
  "parseInches_firetube ''12'' = Inr (Fin 12)"
  "parseInches_firetube ''6'' = Inr (Fin 6)" "parseInches_firetube ''1.0'' = Inr (Fin 1)"
  "parseInches_firetube ''0.125'' = Inr (Fin (1 / 8))" "parseInt ''40'' = Fin 40"
  "parseInt ''80'' = Fin 80"
  by (simp_all add: ft_parse_eval)

lemma crowded_spacing: "obroundPerimeter 10 10 / 40 \<le> 1"
  using pi_less_4 by (simp add: obroundPerimeter_def Let_def)

text \<open>
  C7, as stated, fails: \<open>computeInputs\<close> throws at the first check that fails, and the
  check of the spacing is its last. A form with the bolt circle, the hole count and the
  hole diameter of the example of the claim, and a long side of the OD that is smaller
  than the short side, is rejected with the error of the OD, not as an overlap of the
  holes.
\<close>

theorem hole_overlap_masked:
  "parseInches_firetube (bcLong_value (ft_crowded\<lparr>odLong_value := ''12''\<rparr>)) = Inr (Fin 10) \<and>
   parseInches_firetube (bcShort_value (ft_crowded\<lparr>odLong_value := ''12''\<rparr>)) = Inr (Fin 10) \<and>
   parseInt (holeCount_value (ft_crowded\<lparr>odLong_value := ''12''\<rparr>)) = Fin 40 \<and>
   parseInches_firetube (holeDia_value (ft_crowded\<lparr>odLong_value := ''12''\<rparr>)) = Inr (Fin 1) \<and>
   obroundPerimeter 10 10 / 40 \<le> 1 \<and>
   runValidation (ft_crowded\<lparr>odLong_value := ''12''\<rparr>) = Inl OdLongShort"
proof -
  have "computeInputs (ft_crowded\<lparr>odLong_value := ''12''\<rparr>) = Inl OdLongShort"
    by (simp add: ft_crowded_def ft_steps ft_crowded_texts)
  then have "runValidation (ft_crowded\<lparr>odLong_value := ''12''\<rparr>) = Inl OdLongShort"
    by (rule runValidation_fails)
  then show ?thesis
    using crowded_spacing by (simp add: ft_crowded_def ft_crowded_texts)
qed

text \<open>
  C7, amended. Let the bolt circle, the hole count and the hole diameter of a form be
  finite numbers of ordinary size, with a spacing \<open>P / N\<close> that does not exceed the hole
  diameter (by more than the rounding of the doubles can bridge). Then validation ends in
  a thrown error: no hole is placed and nothing is reported as a warning. The error is
  the hole-overlap error when the form is otherwise valid, that is, when some other text
  for the hole diameter makes \<open>computeInputs\<close> succeed; otherwise it is the error of the
  first check that fails. A form with \<open>bcLong = bcShort = 10\<close>, 40 holes and hole diameter
  1.0 fails, whatever its other inputs.
\<close>

theorem hole_overlap_rejected:
  assumes "parseInches_firetube (bcLong_value f) = Inr (Fin L)"
    and "parseInches_firetube (bcShort_value f) = Inr (Fin W)"
    and "parseInt (holeCount_value f) = Fin N"
    and "parseInches_firetube (holeDia_value f) = Inr (Fin D)"
    and "within_range [L, W, D]"
    and "obroundPerimeter L W / N + rounding_slack [L, W, D] \<le> D"
  shows "(\<exists>e. runValidation f = Inl e) \<and>
         ((\<exists>h v. computeInputs (f\<lparr>holeDia_value := h\<rparr>) = Inr v) \<longrightarrow>
            runValidation f = Inl BoltHolesOverlap) \<and>
         (\<exists>e. runValidation (g\<lparr>bcLong_value := ''10'', bcShort_value := ''10'',
                 holeCount_value := ''40'', holeDia_value := ''1.0''\<rparr>) = Inl e)"
proof (intro conjI impI)
  have le: "obroundPerimeter L W / N \<le> D"
    using assms(6) rounding_slack_nonneg [of "[L, W, D]"] by linarith
  show "\<exists>e. runValidation f = Inl e"
    using computeInputs_overlap_fails [OF assms(1-4) le] runValidation_fails by blast
  assume "\<exists>h v. computeInputs (f\<lparr>holeDia_value := h\<rparr>) = Inr v"
  then obtain h v where "computeInputs (f\<lparr>holeDia_value := h\<rparr>) = Inr v"
    by blast
  then have "computeInputs f = Inl BoltHolesOverlap"
    using assms(1-4) le by (rule computeInputs_overlap_reported)
  then show "runValidation f = Inl BoltHolesOverlap"
    by (rule runValidation_fails)
next
  let ?g = "g\<lparr>bcLong_value := ''10'', bcShort_value := ''10'',
                 holeCount_value := ''40'', holeDia_value := ''1.0''\<rparr>"
  have "\<exists>e. computeInputs ?g = Inl e"
    by (rule computeInputs_overlap_fails [OF _ _ _ _ crowded_spacing])
      (simp_all add: ft_crowded_texts)
  then show "\<exists>e. runValidation ?g = Inl e"
    using runValidation_fails by blast
qed

theorem hole_overlap_rejected_witness:
  "runValidation (ft_crowded\<lparr>holeCount_value := ''80''\<rparr>) = Inl BoltHolesOverlap"
proof -
  let ?f = "ft_crowded\<lparr>holeCount_value := ''80''\<rparr>"
  have c: "\<not> pi \<le> 1" using pi_ge_two by linarith
  have "computeInputs (?f\<lparr>holeDia_value := ''0.125''\<rparr>) =
      Inr \<lparr>odLong = Fin 14, odShort = Fin 14, idLong = Fin 6, idShort = Fin 6, bcLong = Fin 10,
           bcShort = Fin 10, holeCount = Fin 80, holeDia = Fin (1 / 8), centerMode = ''on''\<rparr>"
    using c by (simp add: ft_crowded_def ft_steps ft_crowded_texts obroundPerimeter_def)
  then have ok: "\<exists>h v. computeInputs (?f\<lparr>holeDia_value := h\<rparr>) = Inr v"
    by blast
  have p: "parseInches_firetube (bcLong_value ?f) = Inr (Fin 10)"
    "parseInches_firetube (bcShort_value ?f) = Inr (Fin 10)"
    "parseInt (holeCount_value ?f) = Fin 80"
    "parseInches_firetube (holeDia_value ?f) = Inr (Fin 1)"
    by (simp_all add: ft_crowded_def ft_crowded_texts)
  have r: "within_range [10, 10, 1]"
    by (simp add: within_range_def)
  have "obroundPerimeter 10 10 / 80 \<le> 1 / 2"
    using pi_less_4 by (simp add: obroundPerimeter_def Let_def)
  moreover have "rounding_slack [10, 10, 1] \<le> 1 / 2"
    by (simp add: rounding_slack_def)
  ultimately have s: "obroundPerimeter 10 10 / 80 + rounding_slack [10, 10, 1] \<le> 1"
    by linarith
  from hole_overlap_rejected [OF p r s] ok show ?thesis
    by blast
qed
subsection \<open>Group codes and values\<close>

lemma foldl_addCircle:
  "foldl (\<lambda>d c. case c of Some (x, y) \<Rightarrow> addCircle d layer x y r
                  | None \<Rightarrow> addCircleNaN d layer r) d cs =
     d @ concat (map (\<lambda>c. case c of Some (x, y) \<Rightarrow> addCircle [] layer x y r
                            | None \<Rightarrow> addCircleNaN [] layer r) cs)"
  by (induction cs arbitrary: d) (auto simp: addCircle_def addCircleNaN_def split: option.splits)

lemma length_circles:
  "length (concat (map (\<lambda>c. case c of Some (x, y) \<Rightarrow> addCircle [] layer x y r
                             | None \<Rightarrow> addCircleNaN [] layer r) cs)) = 12 * length cs"
  by (induction cs) (simp_all add: addCircle_def addCircleNaN_def split: option.splits)

lemmas ft_dxf_defs = buildDXF_def addObroundOutline_def addLine_def addArc_def addLayerDef_def
  err_bind_def Let_def

lemma buildDXF_shape:
  assumes "odShort i \<le> odLong i" and "idShort i \<le> idLong i"
  shows "\<exists>ls. buildDXF i cs = Inr ls \<and> odd (length ls) \<and> ls ! 25 = Lit ''0'' \<and>
              ls ! 26 = Lit ''TABLE''"
  using assms
  by (simp add: ft_dxf_defs foldl_addCircle length_circles nth_append)

lemma parse_ft_eval:
  "parseInches_firetube ''20'' = Inr (Fin 20)" "parseInches_firetube ''12'' = Inr (Fin 12)"
  "parseInches_firetube ''4'' = Inr (Fin 4)" "parseInches_firetube ''16'' = Inr (Fin 16)"
  "parseInches_firetube ''8'' = Inr (Fin 8)" "parseInches_firetube ''1'' = Inr (Fin 1)"
  "parseInt ''8'' = Fin 8"
  by (simp_all add: ft_parse_eval)

lemma ft_example_inputs:
  "computeInputs ft_example = Inr \<lparr>odLong = Fin 20, odShort = Fin 12, idLong = Fin 12,
     idShort = Fin 4, bcLong = Fin 16, bcShort = Fin 8, holeCount = Fin 8, holeDia = Fin 1,
     centerMode = ''on''\<rparr>"
proof -
  have c: "\<not> 8 + 8 * pi \<le> 0"
    using pi_gt_zero by linarith
  show ?thesis
    unfolding ft_example_def using c by (simp add: ft_steps parse_ft_eval)
qed

lemma ft_example_no_clearance_errors:
  "errors (evaluateClearances (clearanceBreakdownBySides
     \<lparr>odLong = 20, odShort = 12, idLong = 12, idShort = 4,
      bcLong = 16, bcShort = 8, holeCount = 8, holeDia = 1, centerMode = ''on''\<rparr>)) = []"
  by (simp add: evaluateClearances_def clearanceBreakdownBySides_def rule_def Let_def)

text \<open>
  C2. The DXF text is to be a sequence of pairs (group code, value) with one table of two
  layer records. The text that \<open>buildDXF\<close> of the firetube writes for a valid form opens
  the layer table three times and loses one line to the \<open>pop\<close>: it has an odd number of
  lines, and from its line 26 on texts such as \<open>TABLE\<close> stand at the positions of the
  group codes.
\<close>

theorem firetube_dxf_unpaired:
  "\<exists>inputs centers evals ls.
     runValidation ft_example = Inr (Validated inputs centers evals) \<and> errors evals = [] \<and>
     buildDXF inputs centers = Inr ls \<and>
     odd (length ls) \<and> ls ! 25 = Lit ''0'' \<and> ls ! 26 = Lit ''TABLE'' \<and> \<not> well_paired ls"
proof -
  let ?i = "\<lparr>odLong = 20, odShort = 12, idLong = 12, idShort = 4,
      bcLong = 16, bcShort = 8, holeCount = 8, holeDia = 1, centerMode = ''on''\<rparr> :: ft_inputs"
  obtain ls where ls: "buildDXF ?i (fst (computeHoleCenters ?i)) = Inr ls" "odd (length ls)"
      "ls ! 25 = Lit ''0''" "ls ! 26 = Lit ''TABLE''"
    using buildDXF_shape [of ?i "fst (computeHoleCenters ?i)"] by auto
  have "runValidation ft_example = Inr (Validated ?i (fst (computeHoleCenters ?i))
      (evaluateClearances (clearanceBreakdownBySides ?i)))"
    by (simp add: runValidation_def ft_example_inputs err_bind_def finite_inputs_def Let_def
        split_beta)
  moreover have "\<not> well_paired ls"
    using ls(2) by (simp add: well_paired_def)
  ultimately show ?thesis
    using ls ft_example_no_clearance_errors by blast
qed

text \<open>The flange generator writes the same sections as pairs throughout.\<close>

lemma group_codes_append:
  "even (length xs) \<Longrightarrow> group_codes (xs @ ys) = group_codes xs @ group_codes ys"
  by (induction xs rule: group_codes.induct) auto

lemma well_paired_append:
  "well_paired xs \<Longrightarrow> well_paired ys \<Longrightarrow> well_paired (xs @ ys)"
  by (simp add: well_paired_def group_codes_append)

lemma well_paired_Nil: "well_paired []"
  by (simp add: well_paired_def)

lemma well_paired_header: "well_paired dxfHeader"
  by (simp add: well_paired_def dxfHeader_def is_group_code_def is_digit_def)

lemma well_paired_footer: "well_paired dxfFooter"
  by (simp add: well_paired_def dxfFooter_def is_group_code_def is_digit_def)

lemma well_paired_circle: "well_paired (dxfCircle x y r layer)"
  by (simp add: well_paired_def dxfCircle_def is_group_code_def is_digit_def)

lemma well_paired_vertices: "well_paired (concat (map (dxfVertex layer) pts))"
proof (induction pts)
  case Nil
  show ?case by (simp add: well_paired_def)
next
  case (Cons p pts)
  have "well_paired (dxfVertex layer p)"
    by (simp add: well_paired_def dxfVertex_def is_group_code_def is_digit_def)
  with Cons show ?case by (simp add: well_paired_append)
qed

lemma well_paired_polyline: "well_paired (dxfPolyline pts layer c)"
proof -
  have "well_paired [Lit ''0'', Lit ''POLYLINE'', Lit ''8'', Lit layer, Lit ''66'', Lit ''1'',
      Lit ''70'', Lit (if c then ''1'' else ''0''),
      Lit ''10'', Lit ''0'', Lit ''20'', Lit ''0'', Lit ''30'', Lit ''0'']"
    by (simp add: well_paired_def is_group_code_def is_digit_def)
  moreover have "well_paired [Lit ''0'', Lit ''SEQEND'']"
    by (simp add: well_paired_def is_group_code_def is_digit_def)
  ultimately show ?thesis
    unfolding dxfPolyline_def by (intro well_paired_append well_paired_vertices)
qed

lemma well_paired_circles:
  "well_paired (concat (map (\<lambda>(x, y). dxfCircle x y r layer) hs))"
  by (induction hs) (simp_all add: well_paired_append well_paired_circle well_paired_Nil split_beta)

lemma flange_export_well_paired: "well_paired (flange_downloadDXF v)"
  unfolding flange_downloadDXF_def Let_def
  by (intro well_paired_append well_paired_header well_paired_footer well_paired_polyline
      well_paired_circles)
    (auto simp: well_paired_circle well_paired_polyline well_paired_Nil split: option.splits)

subsection \<open>The coordinates that are written\<close>

lemma numbers_append: "numbers (xs @ ys) = numbers xs @ numbers ys"
  by (induction xs rule: numbers.induct) auto

lemma numbers_vertices:
  "numbers (concat (map (dxfVertex layer) pts)) = concat (map (\<lambda>p. [fst p, snd p]) pts)"
  by (induction pts) (auto simp: dxfVertex_def numbers_append)

lemma js_round_close: "\<bar>js_round (v * 1000000) / 1000000 - v\<bar> \<le> 1 / 2000000"
proof -
  define k where "k = \<lfloor>v * 1000000 + 1 / 2\<rfloor>"
  have "real_of_int k \<le> v * 1000000 + 1 / 2" "v * 1000000 + 1 / 2 < real_of_int k + 1"
    unfolding k_def by linarith+
  then have "\<bar>real_of_int k - v * 1000000\<bar> \<le> 1 / 2" by linarith
  then have "\<bar>(real_of_int k - v * 1000000) / 1000000\<bar> \<le> (1 / 2) / 1000000"
    by (simp only: abs_divide) (simp add: divide_right_mono)
  then show ?thesis
    unfolding js_round_def k_def [symmetric] by (simp add: field_simps)
qed

lemma js_round_multiple:
  "of_int \<lfloor>js_round (n * 1000000) / 1000000 * 1000000 + 1 / 2\<rfloor> / 1000000
     = js_round (n * 1000000) / 1000000"
proof -
  have "\<lfloor>real_of_int k + 1 / 2\<rfloor> = k" for k by linarith
  then show ?thesis by (simp add: js_round_def)
qed

lemma fmt_in_range:
  assumes "\<bar>n\<bar> \<le> 2 ^ 1000"
  shows "fmt n = Num (js_round (n * 1000000) / 1000000)"
proof -
  have "\<bar>n * 1000000\<bar> = \<bar>n\<bar> * 1000000" by (simp add: abs_mult)
  also have "\<dots> \<le> 2 ^ 1000 * 1000000" using assms by simp
  also have "\<dots> < 2 ^ 1024 - 2 ^ 970" by simp
  finally show ?thesis by (simp add: fmt_def)
qed

lemma fmt_six_decimals:
  assumes "\<bar>n\<bar> \<le> 2 ^ 1000"
  shows "\<exists>v. fmt n = Num v \<and> six_decimals n v"
proof -
  have s: "0 \<le> rounding_slack [n]"
    by (simp add: rounding_slack_def)
  have "six_decimals n (js_round (n * 1000000) / 1000000)"
    unfolding six_decimals_def js_round_multiple
    using js_round_close [of n] s by simp
  then show ?thesis
    using fmt_in_range [OF assms] by blast
qed

lemma fmt_list:
  "list_all (\<lambda>x. \<bar>x\<bar> \<le> 2 ^ 1000) xs \<Longrightarrow>
     \<exists>vs. map fmt xs = map Num vs \<and> list_all2 six_decimals xs vs"
proof (induction xs)
  case Nil
  show ?case by simp
next
  case (Cons x xs)
  then obtain vs where vs: "map fmt xs = map Num vs" "list_all2 six_decimals xs vs"
    by auto
  from Cons.prems have "\<bar>x\<bar> \<le> 2 ^ 1000" by simp
  then obtain v where v: "fmt x = Num v" "six_decimals x v"
    using fmt_six_decimals by blast
  have "map fmt (x # xs) = map Num (v # vs) \<and> list_all2 six_decimals (x # xs) (v # vs)"
    using v vs by simp
  then show ?case ..
qed

lemma numbers_Num: "numbers (map Num vs) = vs"
  by (induction vs) simp_all

lemma within_range_bound: "within_range xs \<Longrightarrow> list_all (\<lambda>x. \<bar>x\<bar> \<le> 2 ^ 1000) xs"
  unfolding within_range_def by (induction xs) auto

lemma numbers_fmt:
  assumes "within_range xs"
  shows "\<exists>vs. numbers (map fmt xs) = vs \<and> list_all2 six_decimals xs vs"
proof -
  from within_range_bound [OF assms]
  obtain vs where "map fmt xs = map Num vs" "list_all2 six_decimals xs vs"
    using fmt_list by blast
  then show ?thesis by (simp add: numbers_Num)
qed

lemma numbers_Cons:
  "numbers (l # ls) = (case l of Lit s \<Rightarrow> [] | Num x \<Rightarrow> [x]) @ numbers ls"
  by (cases l) simp_all

lemma numbers_entities:
  "numbers (addCircle dxf layer cx cy cr) = numbers dxf @ numbers (map fmt [cx, cy, cr])"
  "numbers (addLine dxf layer x1 y1 x2 y2) = numbers dxf @ numbers (map fmt [x1, y1, x2, y2])"
  "numbers (addArc dxf layer ax ay ar a1 a2) = numbers dxf @ numbers (map fmt [ax, ay, ar, a1, a2])"
  by (simp_all add: addCircle_def addLine_def addArc_def numbers_append numbers_Cons)

text \<open>
  C5, as stated, fails for the firetube: a hole centre with the coordinate \<open>1 / 1048576\<close>
  (a double) is written as \<open>0.000001\<close>.
\<close>

theorem firetube_rounds_coordinates:
  "numbers (addCircle [] ''Holes'' (1 / 1048576) 0 (1 / 2)) = [1 / 1000000, 0, 1 / 2]"
proof -
  have "\<lfloor>(1000000 :: real) / 1048576 + 1 / 2\<rfloor> = 1" by linarith
  then have "js_round (1 / 1048576 * 1000000) = 1" by (simp add: js_round_def)
  moreover have "\<lfloor>(1 :: real) / 2 * 1000000 + 1 / 2\<rfloor> = 500000" by linarith
  then have "js_round (1 / 2 * 1000000) = 500000" by (simp add: js_round_def)
  moreover have "js_round 0 = 0" by (simp add: js_round_def)
  ultimately show ?thesis by (simp add: addCircle_def fmt_def)
qed

text \<open>
  C5, amended. The ellipse, flange and jumper generators write every coordinate of a
  polyline vertex or a circle as the number itself (\<open>String(x)\<close>, here the line \<open>Num x\<close>),
  with no rounding. The firetube generator writes every number of a line, an arc and a
  circle through \<open>fmt\<close>: for a number of ordinary size the text is that of the number
  rounded to six decimals, a multiple of \<open>10^-6\<close> at most \<open>5 * 10^-7\<close> away from it, up to
  the rounding of the two operations of \<open>fmt\<close> on doubles.
\<close>

theorem coordinates_as_written:
  "numbers (dxfPolyline pts layer c) = concat (map (\<lambda>p. [fst p, snd p]) pts) \<and>
   numbers (dxfCircle x y r layer) = [x, y, r] \<and>
   (within_range [n] \<longrightarrow> (\<exists>v. fmt n = Num v \<and> six_decimals n v)) \<and>
   (within_range [cx, cy, cr] \<longrightarrow>
      (\<exists>vs. numbers (addCircle dxf layer cx cy cr) = numbers dxf @ vs \<and>
            list_all2 six_decimals [cx, cy, cr] vs)) \<and>
   (within_range [x1, y1, x2, y2] \<longrightarrow>
      (\<exists>vs. numbers (addLine dxf layer x1 y1 x2 y2) = numbers dxf @ vs \<and>
            list_all2 six_decimals [x1, y1, x2, y2] vs)) \<and>
   (within_range [ax, ay, ar, a1, a2] \<longrightarrow>
      (\<exists>vs. numbers (addArc dxf layer ax ay ar a1 a2) = numbers dxf @ vs \<and>
            list_all2 six_decimals [ax, ay, ar, a1, a2] vs))"
proof (intro conjI impI)
  show "numbers (dxfPolyline pts layer c) = concat (map (\<lambda>p. [fst p, snd p]) pts)"
    by (simp add: dxfPolyline_def numbers_append numbers_vertices)
  show "numbers (dxfCircle x y r layer) = [x, y, r]"
    by (simp add: dxfCircle_def)
next
  assume "within_range [n]"
  then show "\<exists>v. fmt n = Num v \<and> six_decimals n v"
    by (intro fmt_six_decimals) (auto simp: within_range_def)
next
  assume "within_range [cx, cy, cr]"
  then show "\<exists>vs. numbers (addCircle dxf layer cx cy cr) = numbers dxf @ vs \<and>
      list_all2 six_decimals [cx, cy, cr] vs"
    unfolding numbers_entities by (simp only: same_append_eq) (rule numbers_fmt)
next
  assume "within_range [x1, y1, x2, y2]"
  then show "\<exists>vs. numbers (addLine dxf layer x1 y1 x2 y2) = numbers dxf @ vs \<and>
      list_all2 six_decimals [x1, y1, x2, y2] vs"
    unfolding numbers_entities by (simp only: same_append_eq) (rule numbers_fmt)
next
  assume "within_range [ax, ay, ar, a1, a2]"
  then show "\<exists>vs. numbers (addArc dxf layer ax ay ar a1 a2) = numbers dxf @ vs \<and>
      list_all2 six_decimals [ax, ay, ar, a1, a2] vs"
    unfolding numbers_entities by (simp only: same_append_eq) (rule numbers_fmt)
qed

theorem coordinates_as_written_witness:
  "within_range [1 / 3] \<and> (\<exists>v. fmt (1 / 3) = Num v \<and> six_decimals (1 / 3) v) \<and>
   fmt (1 / 3) = Num (333333 / 1000000)"
proof -
  have r: "within_range [1 / 3]" by (simp add: within_range_def)
  have "\<lfloor>(1000000 :: real) / 3 + 1 / 2\<rfloor> = 333333" by linarith
  then have "fmt (1 / 3) = Num (333333 / 1000000)"
    by (simp add: fmt_def js_round_def)
  with coordinates_as_written [of _ _ _ _ _ _ _ "1 / 3"] r show ?thesis by blast
qed
subsection \<open>What validation reports\<close>




lemma mem_push_if [simp]: "x \<in> set (push_if c e) \<longleftrightarrow> c \<and> x = e"
  by (auto simp: push_if_def)


















subsection \<open>The flange example, from the form to the DXF text\<close>

lemma entities_skip: "c \<noteq> Lit ''0'' \<Longrightarrow> entities (c # v # rest) = entities rest"
proof (cases rest)
  case Nil
  then show ?thesis by simp
next
  case (Cons a as)
  then show "c \<noteq> Lit ''0'' \<Longrightarrow> entities (c # v # rest) = entities rest"
    by (cases as) simp_all
qed

lemma entities_vertices:
  "entities (concat (map (dxfVertex l) pts) @ rest) =
     replicate (length pts) (Lit ''VERTEX'', Lit l) @ entities rest"
  by (induction pts) (simp_all add: dxfVertex_def entities_skip)

lemma entities_polyline:
  "entities (dxfPolyline pts l c @ rest) =
     (Lit ''POLYLINE'', Lit l) # replicate (length pts) (Lit ''VERTEX'', Lit l)
       @ entities (Lit ''0'' # Lit ''SEQEND'' # rest)"
proof -
  have "entities (dxfPolyline pts l c @ rest) =
      (Lit ''POLYLINE'', Lit l) #
        entities (Lit ''66'' # Lit ''1'' # Lit ''70'' # Lit (if c then ''1'' else ''0'') #
          Lit ''10'' # Lit ''0'' # Lit ''20'' # Lit ''0'' # Lit ''30'' # Lit ''0'' #
          (concat (map (dxfVertex l) pts) @ (Lit ''0'' # Lit ''SEQEND'' # rest)))"
    by (simp add: dxfPolyline_def)
  also have "\<dots> = (Lit ''POLYLINE'', Lit l) #
      entities (concat (map (dxfVertex l) pts) @ (Lit ''0'' # Lit ''SEQEND'' # rest))"
    by (simp add: entities_skip)
  finally show ?thesis by (simp add: entities_vertices)
qed

lemma entities_header: "entities (dxfHeader @ rest) = entities rest"
  by (simp add: dxfHeader_def entities_skip)

lemma entities_circle:
  "entities (dxfCircle x y r l @ rest) = (Lit ''CIRCLE'', Lit l) # entities rest"
  by (simp add: dxfCircle_def entities_skip)

lemma flange_entities_circle:
  assumes "cutoutType v = ''circle''" and "cutoutDia v = Some d"
  shows "entities (flange_downloadDXF v) =
     (Lit ''POLYLINE'', Lit ''Perimeter'')
       # replicate (length (roundedRectPoints (odX v) (odY v) (cornerR v) 24))
           (Lit ''VERTEX'', Lit ''Perimeter'')
       @ replicate 5 (Lit ''CIRCLE'', Lit ''Holes'')"
proof -
  have seq: "\<And>rest. entities (Lit ''0'' # Lit ''SEQEND'' # dxfCircle x y r l @ rest)
      = (Lit ''CIRCLE'', Lit l) # entities rest" for x y r l
    by (simp add: dxfCircle_def entities_skip)
  have foot: "entities dxfFooter = []"
    by (simp add: dxfFooter_def)
  show ?thesis
    unfolding flange_downloadDXF_def Let_def
    by (simp add: assms entities_header entities_polyline seq entities_circle foot
        numeral_eq_Suc)
qed

lemma hypot_minus [simp]: "hypot (- x) y = hypot x y" "hypot x (- y) = hypot x y"
  by (simp_all add: hypot_def)

lemma hypot_corner: "7 / 4 < hypot (7 / 4) (7 / 4)"
proof -
  have "(7 / 4 :: real)\<^sup>2 < (7 / 4)\<^sup>2 + (7 / 4)\<^sup>2" by simp
  then show ?thesis
    unfolding hypot_def by (rule real_less_rsqrt)
qed

lemma flange_texts:
  "parseInches ''5'' = Some 5" "parseInches ''0.5'' = Some (1 / 2)"
  "parseInches ''3.5'' = Some (7 / 2)" "parseInches ''3.0'' = Some 3" "parseInches [] = None"
  by (simp_all add: parse_eval)

lemma flange_example_basic: "flange_basic_errors flange_example = []"
  by (simp add: flange_basic_errors_def flange_example_def flange_texts Let_def push_if_def
      not_positive_def not_nonnegative_def radius_too_large_def clampRadius_def trim_def
      is_space_def)

lemma hypot_zero: "hypot 0 0 = 0"
  by (simp add: hypot_def)

lemma flange_example_geometry:
  "flange_geometry_errors 5 5 (1 / 2) (7 / 2) (7 / 2) (1 / 2) ''circle'' (Some 3) None None 0 = []"
proof -
  have gap: "gapCircleToRoundedOD x y (1 / 4) 5 5 (1 / 2) = 1 / 2"
    if "\<bar>x\<bar> = 7 / 4" "\<bar>y\<bar> = 7 / 4" for x y
    using that
    by (simp add: gapCircleToRoundedOD_def sdfRoundedRect_def clampRadius_def Let_def hypot_zero)
  have cut: "gapCircleToRoundedOD 0 0 (3 / 2) 5 5 (1 / 2) = 1"
    by (simp add: gapCircleToRoundedOD_def sdfRoundedRect_def clampRadius_def Let_def hypot_zero)
  have h: "\<not> hypot (7 / 4) (7 / 4) * 4 \<le> 7"
    using hypot_corner by simp
  show ?thesis
    by (simp add: flange_geometry_errors_def Let_def push_if_def min_gap_def not_clear_def
        gap cut h)
qed

text \<open>
  C6. The flange form with \<open>odX = odY = 5\<close>, corner radius 0.5, bolt holes of diameter
  0.5 at centre distances 3.5 by 3.5 and a circular cutout of diameter 3.0 validates with
  no error, and the DXF text exported from it has exactly one \<open>POLYLINE\<close>, on layer
  \<open>Perimeter\<close>, and exactly five \<open>CIRCLE\<close> entities, all on layer \<open>Holes\<close>.
\<close>

theorem flange_example_export:
  "\<exists>v. flange_validateAndPreview flange_example = Inr v \<and>
       filter (\<lambda>e. fst e = Lit ''POLYLINE'') (entities (flange_downloadDXF v)) =
         [(Lit ''POLYLINE'', Lit ''Perimeter'')] \<and>
       filter (\<lambda>e. fst e = Lit ''CIRCLE'') (entities (flange_downloadDXF v)) =
         replicate 5 (Lit ''CIRCLE'', Lit ''Holes'')"
proof -
  let ?v = "\<lparr>odX = 5, odY = 5, cornerR = 1 / 2, bhCCX = 7 / 2, bhCCY = 7 / 2, bhDia = 1 / 2,
      cutoutType = ''circle'', cutoutDia = Some 3, cutoutX = None, cutoutY = None,
      cutoutR = 0\<rparr>"
  have "flange_validateAndPreview flange_example = Inr ?v"
    unfolding flange_validateAndPreview_def Let_def
    by (simp add: flange_example_basic)
      (simp add: flange_example_def flange_texts flange_example_geometry trim_def is_space_def)
  moreover have "entities (flange_downloadDXF ?v) =
     (Lit ''POLYLINE'', Lit ''Perimeter'')
       # replicate (length (roundedRectPoints 5 5 (1 / 2) 24)) (Lit ''VERTEX'', Lit ''Perimeter'')
       @ replicate 5 (Lit ''CIRCLE'', Lit ''Holes'')"
    using flange_entities_circle [of ?v 3] by simp
  ultimately show ?thesis by simp
qed

subsection \<open>The jumper outline\<close>




lemma sq_polar: "(r * cos a)\<^sup>2 + (r * sin a)\<^sup>2 = (r::real)\<^sup>2"
proof -
  have "(r * cos a)\<^sup>2 + (r * sin a)\<^sup>2 = r\<^sup>2 * ((cos a)\<^sup>2 + (sin a)\<^sup>2)"
    by (simp only: power_mult_distrib distrib_left)
  also have "\<dots> = r\<^sup>2" by simp
  finally show ?thesis .
qed








lemma circle_point: "(cx + r * cos a - cx)\<^sup>2 + (cy + r * sin a - cy)\<^sup>2 = (r::real)\<^sup>2"
  by (simp add: sq_polar)
















end
